theory Spec2Isabelle
  imports Main
begin

section \<open>Lead scoring\<close>

text \<open>
  The object returned by \<^verbatim>\<open>searchWithExa\<close> (either by \<^verbatim>\<open>basicContentAnalysis\<close> or
  by \<^verbatim>\<open>extractHealthcareData\<close>). The three array properties and
  \<^verbatim>\<open>content_analyzed\<close> are optional: \<^verbatim>\<open>calculateLeadScore\<close> reads the arrays
  through \<^verbatim>\<open>?.length\<close>, and \<^verbatim>\<open>basicContentAnalysis\<close> leaves
  \<^verbatim>\<open>content_analyzed\<close> undefined. \<open>None\<close> stands for an absent property.
\<close>

record exa_data =
  ed_company :: string
  ed_phone :: string
  ed_email :: string
  ed_location :: string
  ed_services :: "string list option"
  ed_treatments :: "string list option"
  ed_specializations :: "string list option"
  ed_practice_type :: string
  ed_content_analyzed :: "nat option"

text \<open>\<^verbatim>\<open>x?.length > 0\<close>: false when the property is absent.\<close>

definition length_gt0 :: "'a list option \<Rightarrow> bool" where
  "length_gt0 xs = (case xs of None \<Rightarrow> False | Some l \<Rightarrow> length l > 0)"

text \<open>\<^verbatim>\<open>x.length\<close> where the guard \<open>length_gt0\<close> has already established that the array is there.\<close>

definition length_of :: "'a list option \<Rightarrow> int" where
  "length_of xs = (case xs of None \<Rightarrow> 0 | Some l \<Rightarrow> int (length l))"

text \<open>\<^verbatim>\<open>exaData.content_analyzed > 1000\<close>: \<^verbatim>\<open>undefined > 1000\<close> is false.\<close>

definition gt_1000 :: "nat option \<Rightarrow> bool" where
  "gt_1000 c = (case c of None \<Rightarrow> False | Some n \<Rightarrow> n > 1000)"

definition calculateLeadScore :: "exa_data \<Rightarrow> int" where
  "calculateLeadScore exaData =
    (let score = 50;
         score = (if length_gt0 (ed_services exaData)
                  then score + min (length_of (ed_services exaData) * 5) 25 else score);
         score = (if length_gt0 (ed_treatments exaData)
                  then score + min (length_of (ed_treatments exaData) * 3) 20 else score);
         score = (if ed_phone exaData \<noteq> [] then score + 10 else score);
         score = (if ed_email exaData \<noteq> [] then score + 10 else score);
         score = (if ed_location exaData \<noteq> [] then score + 5 else score);
         score = (if length_gt0 (ed_specializations exaData) then score + 5 else score);
         score = (if gt_1000 (ed_content_analyzed exaData) then score + 5 else score)
     in min score 100)"

subsection \<open>The scoring contract in the specification's words\<close>

text \<open>The signals the contract speaks of: three counts, three presences and the amount of content analysed.\<close>

definition n_services :: "exa_data \<Rightarrow> nat" where
  "n_services e = (case ed_services e of None \<Rightarrow> 0 | Some l \<Rightarrow> length l)"

definition n_treatments :: "exa_data \<Rightarrow> nat" where
  "n_treatments e = (case ed_treatments e of None \<Rightarrow> 0 | Some l \<Rightarrow> length l)"

definition n_specializations :: "exa_data \<Rightarrow> nat" where
  "n_specializations e = (case ed_specializations e of None \<Rightarrow> 0 | Some l \<Rightarrow> length l)"

definition n_content :: "exa_data \<Rightarrow> nat" where
  "n_content e = (case ed_content_analyzed e of None \<Rightarrow> 0 | Some n \<Rightarrow> n)"

definition has_phone :: "exa_data \<Rightarrow> bool" where
  "has_phone e = (ed_phone e \<noteq> [])"

definition has_email :: "exa_data \<Rightarrow> bool" where
  "has_email e = (ed_email e \<noteq> [])"

definition has_location :: "exa_data \<Rightarrow> bool" where
  "has_location e = (ed_location e \<noteq> [])"

text \<open>Base 50; services 5 each up to 25; treatments 3 each up to 20; phone 10; email 10;
  location 5; any specialization 5; more than 1000 characters analysed 5; at most 100.\<close>

definition services_bonus :: "exa_data \<Rightarrow> int" where
  "services_bonus e = min 25 (5 * int (n_services e))"

definition treatments_bonus :: "exa_data \<Rightarrow> int" where
  "treatments_bonus e = min 20 (3 * int (n_treatments e))"

definition flag_bonus :: "bool \<Rightarrow> int \<Rightarrow> int" where
  "flag_bonus b k = (if b then k else 0)"

definition score_spec :: "exa_data \<Rightarrow> int" where
  "score_spec e =
     min 100 (50 + services_bonus e + treatments_bonus e
              + flag_bonus (has_phone e) 10 + flag_bonus (has_email e) 10
              + flag_bonus (has_location e) 5
              + flag_bonus (n_specializations e > 0) 5
              + flag_bonus (n_content e > 1000) 5)"

text \<open>One input carries at least the signals of another.\<close>

definition signals_le :: "exa_data \<Rightarrow> exa_data \<Rightarrow> bool" where
  "signals_le a b \<longleftrightarrow>
     n_services a \<le> n_services b \<and> n_treatments a \<le> n_treatments b
     \<and> n_specializations a \<le> n_specializations b \<and> n_content a \<le> n_content b
     \<and> (has_phone a \<longrightarrow> has_phone b) \<and> (has_email a \<longrightarrow> has_email b)
     \<and> (has_location a \<longrightarrow> has_location b)"

section \<open>JavaScript strings\<close>

text \<open>
  A string is a list of characters; a \<^typ>\<open>char\<close> stands for one code unit below 256.
  \<open>code\<close> is the number of the code unit.
\<close>

definition code :: "char \<Rightarrow> nat" where
  "code c = of_char c"

text \<open>The class \<^verbatim>\<open>\d\<close>.\<close>

definition is_digit :: "char \<Rightarrow> bool" where
  "is_digit c = (48 \<le> code c \<and> code c \<le> 57)"

definition is_upper :: "char \<Rightarrow> bool" where
  "is_upper c = (65 \<le> code c \<and> code c \<le> 90)"

definition is_lower :: "char \<Rightarrow> bool" where
  "is_lower c = (97 \<le> code c \<and> code c \<le> 122)"

text \<open>The class \<^verbatim>\<open>[a-zA-Z0-9]\<close>.\<close>

definition is_alnum :: "char \<Rightarrow> bool" where
  "is_alnum c = (is_lower c \<or> is_upper c \<or> is_digit c)"

text \<open>
  The class \<^verbatim>\<open>\s\<close>, which is also what \<^verbatim>\<open>trim\<close> removes: tab, line feed, vertical tab,
  form feed, carriage return, space and no-break space (the members below 256).
\<close>

definition is_space :: "char \<Rightarrow> bool" where
  "is_space c = (code c \<in> {9, 10, 11, 12, 13, 32, 160})"

text \<open>The class \<^verbatim>\<open>[\x20-\x7E]\<close>.\<close>

definition is_printable :: "char \<Rightarrow> bool" where
  "is_printable c = (32 \<le> code c \<and> code c \<le> 126)"

text \<open>
  \<^verbatim>\<open>toLowerCase\<close> on one code unit: the ASCII capitals and the Latin-1 capitals
  (\<^verbatim>\<open>\xC0\<close> to \<^verbatim>\<open>\xDE\<close> without the multiplication sign \<^verbatim>\<open>\xD7\<close>) move up by 32.
\<close>

definition lower_char :: "char \<Rightarrow> char" where
  "lower_char c =
     (if is_upper c \<or> (192 \<le> code c \<and> code c \<le> 222 \<and> code c \<noteq> 215)
      then char_of (code c + 32) else c)"

definition js_toLowerCase :: "string \<Rightarrow> string" where
  "js_toLowerCase s = map lower_char s"

text \<open>
  \<^verbatim>\<open>toUpperCase\<close> on one code unit. Only the ASCII letters are mapped: the function is
  applied to the first character of a part of a hostname or of a location hint, and both are
  ASCII.
\<close>

definition upper_char :: "char \<Rightarrow> char" where
  "upper_char c = (if is_lower c then char_of (code c - 32) else c)"

text \<open>\<^verbatim>\<open>s.charAt(0).toUpperCase() + s.slice(1)\<close>; \<^verbatim>\<open>charAt(0)\<close> of the empty string is empty.\<close>

definition capitalize :: "string \<Rightarrow> string" where
  "capitalize s = (case s of [] \<Rightarrow> [] | c # cs \<Rightarrow> upper_char c # cs)"

text \<open>\<^verbatim>\<open>trim\<close>.\<close>

definition js_trim :: "string \<Rightarrow> string" where
  "js_trim s = rev (dropWhile is_space (rev (dropWhile is_space s)))"

text \<open>\<^verbatim>\<open>substring(0, n)\<close> is \<open>take n\<close>. \<^verbatim>\<open>slice(-n)\<close> keeps the last \<open>n\<close> characters.\<close>

definition slice_last :: "nat \<Rightarrow> string \<Rightarrow> string" where
  "slice_last n s = drop (length s - n) s"

text \<open>\<^verbatim>\<open>a.join(sep)\<close> on an array of strings.\<close>

fun js_join :: "string \<Rightarrow> string list \<Rightarrow> string" where
  "js_join sep [] = []"
| "js_join sep [x] = x"
| "js_join sep (x # y # ys) = x @ sep @ js_join sep (y # ys)"

text \<open>
  \<^verbatim>\<open>s.split(/[...]/)\<close> for a one-character class \<open>p\<close>: the pieces between the separators;
  a string without separator, the empty one too, gives one piece.
\<close>

fun split_on :: "(char \<Rightarrow> bool) \<Rightarrow> string \<Rightarrow> string list" where
  "split_on p [] = [[]]"
| "split_on p (c # cs) =
     (if p c then [] # split_on p cs
      else (case split_on p cs of [] \<Rightarrow> [[c]] | w # ws \<Rightarrow> (c # w) # ws))"

text \<open>\<^verbatim>\<open>s.startsWith(t)\<close>, and \<^verbatim>\<open>s.includes(t)\<close>.\<close>

fun starts_with :: "string \<Rightarrow> string \<Rightarrow> bool" where
  "starts_with s [] = True"
| "starts_with [] (t # ts) = False"
| "starts_with (c # cs) (t # ts) = (c = t \<and> starts_with cs ts)"

fun js_includes :: "string \<Rightarrow> string \<Rightarrow> bool" where
  "js_includes [] t = (t = [])"
| "js_includes (c # cs) t = (starts_with (c # cs) t \<or> js_includes cs t)"

text \<open>\<^verbatim>\<open>s.replace(t, r)\<close> with a string pattern: the first occurrence only.\<close>

fun replace_first :: "string \<Rightarrow> string \<Rightarrow> string \<Rightarrow> string" where
  "replace_first t r [] = (if t = [] then r else [])"
| "replace_first t r (c # cs) =
     (if starts_with (c # cs) t then r @ drop (length t) (c # cs)
      else c # replace_first t r cs)"

text \<open>\<^verbatim>\<open>s.replace(/^t/, '')\<close> for a literal \<open>t\<close>.\<close>

definition strip_prefix :: "string \<Rightarrow> string \<Rightarrow> string" where
  "strip_prefix t s = (if starts_with s t then drop (length t) s else s)"

text \<open>\<^verbatim>\<open>s.replace(/\s+/g, '-')\<close>: every maximal run of white space becomes one hyphen.\<close>

function collapse_spaces :: "string \<Rightarrow> string" where
  "collapse_spaces [] = []"
| "collapse_spaces (c # cs) =
     (if is_space c then CHR ''-'' # collapse_spaces (dropWhile is_space cs)
      else c # collapse_spaces cs)"
  by pat_completeness auto
termination
  by (relation "measure length") (auto simp add: length_dropWhile_le less_Suc_eq_le)

text \<open>\<^verbatim>\<open>n.toString()\<close> for a non-negative integer, and for an integer.\<close>

definition digit_char :: "nat \<Rightarrow> char" where
  "digit_char d = char_of (48 + d)"

function show_nat :: "nat \<Rightarrow> string" where
  "show_nat n = (if n < 10 then [digit_char n] else show_nat (n div 10) @ [digit_char (n mod 10)])"
  by pat_completeness auto
termination
  by (relation "measure (\<lambda>n. n)") auto

declare show_nat.simps [simp del]

definition show_int :: "int \<Rightarrow> string" where
  "show_int i = (if i < 0 then CHR ''-'' # show_nat (nat (- i)) else show_nat (nat i))"

section \<open>JavaScript values and objects\<close>

text \<open>
  The values a property of a lead record can hold. Numbers are the integers of magnitude below
  \<open>10\<^sup>2\<^sup>1\<close> (every number the program stores in a record is one; from there on
  \<^verbatim>\<open>String\<close> uses exponent notation, which is not modelled). An object is its list of properties in the order of the
  object literal; reading a property that is not there gives \<^verbatim>\<open>undefined\<close>.
\<close>

datatype jsval = JUndefined | JNull | JBool bool | JNum int | JStr string | JArr "jsval list"

type_synonym obj = "(string \<times> jsval) list"

definition get :: "obj \<Rightarrow> string \<Rightarrow> jsval" where
  "get ob k = (case map_of ob k of None \<Rightarrow> JUndefined | Some v \<Rightarrow> v)"

fun truthy :: "jsval \<Rightarrow> bool" where
  "truthy JUndefined = False"
| "truthy JNull = False"
| "truthy (JBool b) = b"
| "truthy (JNum n) = (n \<noteq> 0)"
| "truthy (JStr s) = (s \<noteq> [])"
| "truthy (JArr xs) = True"

text \<open>\<^verbatim>\<open>a || b\<close>.\<close>

definition js_or :: "jsval \<Rightarrow> jsval \<Rightarrow> jsval" where
  "js_or a b = (if truthy a then a else b)"

text \<open>
  \<^verbatim>\<open>String(v)\<close>, the conversion that template literals, \<^verbatim>\<open>join\<close>, \<^verbatim>\<open>RegExp.test\<close> and
  \<^verbatim>\<open>parseInt\<close> apply. An array is the join of its elements with a comma, where
  \<^verbatim>\<open>undefined\<close> and \<^verbatim>\<open>null\<close> elements give the empty string.
\<close>

fun js_String :: "jsval \<Rightarrow> string"
  and js_String_elem :: "jsval \<Rightarrow> string" where
  "js_String JUndefined = ''undefined''"
| "js_String JNull = ''null''"
| "js_String (JBool b) = (if b then ''true'' else ''false'')"
| "js_String (JNum n) = show_int n"
| "js_String (JStr s) = s"
| "js_String (JArr xs) = js_join '','' (map js_String_elem xs)"
| "js_String_elem JUndefined = []"
| "js_String_elem JNull = []"
| "js_String_elem (JBool b) = js_String (JBool b)"
| "js_String_elem (JNum n) = js_String (JNum n)"
| "js_String_elem (JStr s) = js_String (JStr s)"
| "js_String_elem (JArr xs) = js_String (JArr xs)"

text \<open>\<^verbatim>\<open>a.join(sep)\<close> on an array of values.\<close>

definition join_values :: "string \<Rightarrow> jsval list \<Rightarrow> string" where
  "join_values sep xs = js_join sep (map js_String_elem xs)"

text \<open>
  \<^verbatim>\<open>parseInt(v)\<close> without radix; \<open>None\<close> is \<^verbatim>\<open>NaN\<close>. The argument is converted to a string;
  leading white space and a sign are skipped; a \<^verbatim>\<open>0x\<close> prefix selects base 16; the longest
  run of digits is read. For a number the string is its decimal numeral, which reads back
  as the number.
\<close>

definition digits_value :: "string \<Rightarrow> nat" where
  "digits_value ds = foldl (\<lambda>a c. 10 * a + (code c - 48)) 0 ds"

definition is_hex :: "char \<Rightarrow> bool" where
  "is_hex c = (is_digit c \<or> (65 \<le> code c \<and> code c \<le> 70) \<or> (97 \<le> code c \<and> code c \<le> 102))"

definition hex_digit :: "char \<Rightarrow> nat" where
  "hex_digit c = (if is_digit c then code c - 48
                  else if code c \<le> 70 then code c - 55 else code c - 87)"

definition hex_value :: "string \<Rightarrow> nat" where
  "hex_value ds = foldl (\<lambda>a c. 16 * a + hex_digit c) 0 ds"

definition parse_magnitude :: "string \<Rightarrow> nat option" where
  "parse_magnitude u =
     (if starts_with u ''0x'' \<or> starts_with u ''0X''
      then (let h = takeWhile is_hex (drop 2 u) in if h = [] then None else Some (hex_value h))
      else (let d = takeWhile is_digit u in if d = [] then None else Some (digits_value d)))"

definition parseInt_string :: "string \<Rightarrow> int option" where
  "parseInt_string s =
     (case dropWhile is_space s of
        [] \<Rightarrow> None
      | c # cs \<Rightarrow>
          if c = CHR ''-'' then map_option (\<lambda>n. - int n) (parse_magnitude cs)
          else if c = CHR ''+'' then map_option int (parse_magnitude cs)
          else map_option int (parse_magnitude (c # cs)))"

fun js_parseInt :: "jsval \<Rightarrow> int option" where
  "js_parseInt (JNum n) = Some n"
| "js_parseInt v = parseInt_string (js_String v)"

section \<open>The environment of a run\<close>

text \<open>
  What the agent reads from outside: the platform's URL parser, the clock, the random
  generator, the configuration, and the answers of the external services. The pattern-matching
  extraction functions (\<^verbatim>\<open>extractServices\<close>, \<^verbatim>\<open>extractTreatments\<close>,
  \<^verbatim>\<open>extractSpecializations\<close>, \<^verbatim>\<open>extractContactInfo\<close>, \<^verbatim>\<open>extractLocationFromContent\<close>,
  \<^verbatim>\<open>determinePracticeType\<close>) are one parameter, \<open>classify\<close>: everything below holds
  whatever they return.
\<close>

record classification =
  cl_services :: "string list"
  cl_treatments :: "string list"
  cl_specializations :: "string list"
  cl_phone :: string
  cl_email :: string
  cl_location :: "string option"
  cl_practice_type :: string

text \<open>
  What \<^verbatim>\<open>createGitHubRepository\<close> returns: \<^verbatim>\<open>{ success: false, error }\<close>, or
  \<^verbatim>\<open>{ success: true, repo_name, repo_url, clone_url }\<close>.
\<close>

datatype github_result =
  GithubFailure string
  | GithubSuccess (repo_name: string) (repo_url: string) (clone_url: string)

record project_result =
  pr_success :: bool
  pr_project_id :: string

record service_result =
  sr_success :: bool
  sr_service_id :: string
  sr_environment_id :: string

text \<open>The Railway client: each call answers or rejects (\<open>Inl\<close> with the message).\<close>

record railway_client =
  createProject :: "string \<Rightarrow> string + project_result"
  createServiceFromRepo :: "string \<Rightarrow> string \<Rightarrow> string + service_result"
  setEnvironmentVariables :: "string \<Rightarrow> string \<Rightarrow> obj \<Rightarrow> string + unit"
  createDomain :: "string \<Rightarrow> string \<Rightarrow> string + string"
  createServiceFromImage :: "string \<Rightarrow> string \<Rightarrow> string + service_result"

record env =
  url_hostname :: "string \<Rightarrow> string option"
    \<comment> \<open>\<^verbatim>\<open>new URL(u).hostname\<close>; \<open>None\<close> when the constructor throws\<close>
  date_now :: nat
    \<comment> \<open>\<^verbatim>\<open>Date.now()\<close>\<close>
  date_iso :: string
    \<comment> \<open>\<^verbatim>\<open>new Date().toISOString()\<close>\<close>
  random36 :: string
    \<comment> \<open>\<^verbatim>\<open>Math.random().toString(36).substring(7)\<close>\<close>
  notion_call_ok :: bool
    \<comment> \<open>the draw \<^verbatim>\<open>Math.random() > 0.3\<close> of the simulated Notion call\<close>
  exa_api_key :: "string option"
    \<comment> \<open>\<^verbatim>\<open>config.exa_api_key\<close>\<close>
  exa_post :: "string \<Rightarrow> string \<Rightarrow> string + string list"
    \<comment> \<open>the search request for a query and a domain: rejected with a message, or the texts
        of the results (empty for a missing text)\<close>
  classify :: "string \<Rightarrow> classification"
  github_create :: "obj \<Rightarrow> string \<Rightarrow> github_result"
    \<comment> \<open>what \<^verbatim>\<open>createGitHubRepository\<close>, a wrapper of shell commands that catches its own
        errors, returns for a record and a repository name\<close>
  railwayMCP :: "railway_client option"
    \<comment> \<open>\<^verbatim>\<open>this.railwayMCP\<close>; \<open>None\<close> when the property is not set\<close>

section \<open>Enrichment of a target\<close>

text \<open>
  \<^verbatim>\<open>name.replace(/\.(com|org|net|co\.uk|nl|de|fr)$/, '')\<close>. No listed ending is the end of
  another one, so at most one of them ends the name.
\<close>

definition strip_tld :: "string \<Rightarrow> string" where
  "strip_tld name =
     (case filter (\<lambda>t. starts_with (rev name) (rev t))
             [''.com'', ''.org'', ''.net'', ''.co.uk'', ''.nl'', ''.de'', ''.fr''] of
        [] \<Rightarrow> name
      | t # _ \<Rightarrow> take (length name - length t) name)"

definition extractCompanyFromUrl :: "string \<Rightarrow> string" where
  "extractCompanyFromUrl hostname =
     (let name = strip_tld (strip_prefix ''www.'' hostname);
          parts = split_on (\<lambda>c. c = CHR ''.'' \<or> c = CHR ''-'') name;
          meaningful = filter (\<lambda>part. length part > 2) parts
      in js_join '' '' (map capitalize meaningful) @ '' Healthcare'')"

definition extractLocationFromUrl :: "string \<Rightarrow> string" where
  "extractLocationFromUrl hostname =
     (let locationHints = [''london'', ''newyork'', ''sydney'', ''toronto'', ''vancouver'',
                           ''melbourne'', ''amsterdam'', ''berlin'', ''paris''];
          domain = js_toLowerCase hostname
      in case filter (\<lambda>location. js_includes domain location) locationHints of
           [] \<Rightarrow> ''Practice Location''
         | location # _ \<Rightarrow> capitalize location)"

definition basicContentAnalysis :: "env \<Rightarrow> string \<Rightarrow> string + exa_data" where
  "basicContentAnalysis E url =
     (case url_hostname E url of
        None \<Rightarrow> Inl ''Invalid URL''
      | Some hostname \<Rightarrow>
          Inr \<lparr>ed_company = extractCompanyFromUrl hostname,
               ed_phone = [], ed_email = [],
               ed_location = extractLocationFromUrl hostname,
               ed_services = Some [''Healthcare Services''],
               ed_treatments = Some [''Consultation''],
               ed_specializations = Some [''General Healthcare''],
               ed_practice_type = ''general-healthcare'',
               ed_content_analyzed = None\<rparr>)"

definition extractHealthcareData :: "env \<Rightarrow> string \<Rightarrow> string \<Rightarrow> string \<Rightarrow> string + exa_data" where
  "extractHealthcareData E content url companyName =
     (let c = classify E content;
          location =
            (case cl_location c of
               Some l \<Rightarrow> if l \<noteq> [] then Inr l else map_sum id extractLocationFromUrl
                              (case url_hostname E url of None \<Rightarrow> Inl ''Invalid URL'' | Some h \<Rightarrow> Inr h)
             | None \<Rightarrow> map_sum id extractLocationFromUrl
                              (case url_hostname E url of None \<Rightarrow> Inl ''Invalid URL'' | Some h \<Rightarrow> Inr h))
      in case location of
           Inl err \<Rightarrow> Inl err
         | Inr loc \<Rightarrow>
             Inr \<lparr>ed_company = companyName,
                  ed_phone = cl_phone c, ed_email = cl_email c,
                  ed_location = loc,
                  ed_services = Some (cl_services c),
                  ed_treatments = Some (cl_treatments c),
                  ed_specializations = Some (cl_specializations c),
                  ed_practice_type = cl_practice_type c,
                  ed_content_analyzed = Some (length content)\<rparr>)"

text \<open>
  \<^verbatim>\<open>searchWithExa\<close>. Without a key the basic analysis answers. Otherwise the request is
  made inside a \<^verbatim>\<open>try\<close> block whose \<^verbatim>\<open>catch\<close> falls back to the basic analysis as well.
\<close>

definition searchWithExa :: "env \<Rightarrow> string \<Rightarrow> string \<Rightarrow> string + exa_data" where
  "searchWithExa E url companyName =
     (if exa_api_key E = None \<or> exa_api_key E = Some [] then basicContentAnalysis E url
      else
        (case url_hostname E url of
           None \<Rightarrow> basicContentAnalysis E url
         | Some hostname \<Rightarrow>
            (case exa_post E
                    (companyName @ '' healthcare services treatments specializations contact information'')
                    hostname of
               Inl err \<Rightarrow> basicContentAnalysis E url
             | Inr results \<Rightarrow>
                 (case results of
                    [] \<Rightarrow> basicContentAnalysis E url
                  | content # _ \<Rightarrow>
                      (case extractHealthcareData E content url companyName of
                         Inl err \<Rightarrow> basicContentAnalysis E url
                       | Inr exaData \<Rightarrow> Inr exaData)))))"

definition generatePracticeId :: "env \<Rightarrow> string \<Rightarrow> string" where
  "generatePracticeId E companyName =
     take 30 (collapse_spaces (filter (\<lambda>c. is_alnum c \<or> is_space c) (js_toLowerCase companyName)))
     @ ''-'' @ slice_last 6 (show_nat (date_now E))"

text \<open>\<^verbatim>\<open>url.replace(/https?:\/\//, '')\<close>: the first occurrence, wherever it is.\<close>

fun remove_first_scheme :: "string \<Rightarrow> string" where
  "remove_first_scheme [] = []"
| "remove_first_scheme (c # cs) =
     (if starts_with (c # cs) ''http://'' then drop 7 (c # cs)
      else if starts_with (c # cs) ''https://'' then drop 8 (c # cs)
      else c # remove_first_scheme cs)"

text \<open>The \<^verbatim>\<open>try\<close> block of \<^verbatim>\<open>scrapeHealthcarePractice\<close>; \<open>Inl\<close> is a thrown error.\<close>

definition str_array :: "string list \<Rightarrow> jsval" where
  "str_array xs = JArr (map JStr xs)"

definition scrape_try :: "env \<Rightarrow> string \<Rightarrow> string + obj" where
  "scrape_try E url =
     (case url_hostname E url of
        None \<Rightarrow> Inl ''Invalid URL''
      | Some hostname \<Rightarrow>
         (let companyName = extractCompanyFromUrl hostname
          in case searchWithExa E url companyName of
               Inl err \<Rightarrow> Inl err
             | Inr exaData \<Rightarrow>
                 (let company = (if ed_company exaData \<noteq> [] then ed_company exaData else companyName)
                  in Inr
                   [(''company'', JStr company),
                    (''phone'', JStr (ed_phone exaData)),
                    (''email'', JStr (ed_email exaData)),
                    (''location'', JStr (if ed_location exaData \<noteq> [] then ed_location exaData
                                         else extractLocationFromUrl hostname)),
                    (''services'', str_array (case ed_services exaData of None \<Rightarrow> [] | Some xs \<Rightarrow> xs)),
                    (''treatments'', str_array (case ed_treatments exaData of None \<Rightarrow> [] | Some xs \<Rightarrow> xs)),
                    (''specializations'',
                       str_array (case ed_specializations exaData of None \<Rightarrow> [] | Some xs \<Rightarrow> xs)),
                    (''url'', JStr url),
                    (''domain'', JStr hostname),
                    (''scraped_at'', JStr (date_iso E)),
                    (''practice_type'', JStr (if ed_practice_type exaData \<noteq> []
                                              then ed_practice_type exaData else ''healthcare'')),
                    (''lead_score'', JNum (calculateLeadScore exaData)),
                    (''exa_enhanced'', JBool True),
                    (''practiceId'', JStr (generatePracticeId E company))])))"

text \<open>The \<^verbatim>\<open>catch\<close> block: it parses the URL again, so it throws when the URL is invalid.\<close>

definition scrape_catch :: "env \<Rightarrow> string \<Rightarrow> string \<Rightarrow> string + obj" where
  "scrape_catch E url message =
     (case url_hostname E url of
        None \<Rightarrow> Inl ''Invalid URL''
      | Some hostname \<Rightarrow>
         (let fallbackId = take 20 (filter is_alnum (remove_first_scheme url))
          in Inr
           [(''company'', JStr (extractCompanyFromUrl hostname)),
            (''phone'', JStr []),
            (''email'', JStr []),
            (''location'', JStr (extractLocationFromUrl hostname)),
            (''services'', str_array [''General Healthcare'']),
            (''treatments'', str_array [''Consultation'']),
            (''specializations'', str_array [''Healthcare'']),
            (''url'', JStr url),
            (''domain'', JStr hostname),
            (''practiceId'', JStr fallbackId),
            (''scraped_at'', JStr (date_iso E)),
            (''practice_type'', JStr ''healthcare-basic''),
            (''lead_score'', JNum 30),
            (''exa_enhanced'', JBool False),
            (''error'', JStr message)]))"

definition scrapeHealthcarePractice :: "env \<Rightarrow> string \<Rightarrow> string + obj" where
  "scrapeHealthcarePractice E url =
     (case scrape_try E url of
        Inr practiceData \<Rightarrow> Inr practiceData
      | Inl message \<Rightarrow> scrape_catch E url message)"

section \<open>Validation and storage of a lead\<close>

text \<open>The helper \<^verbatim>\<open>sanitize\<close> of \<^verbatim>\<open>validateNotionData\<close>.\<close>

definition sanitize :: "jsval \<Rightarrow> string" where
  "sanitize str =
     (if \<not> truthy str then []
      else take 2000 (js_trim (filter is_printable
             (map (\<lambda>c. if code c \<in> {10, 13, 9} then CHR '' '' else c) (js_String str)))))"

text \<open>
  The pattern \<^verbatim>\<open>/^[^\s@]+@[^\s@]+\.[^\s@]+$/\<close>: no white space, exactly one \<^verbatim>\<open>@\<close> with
  something before it, and after it a dot that is neither the first nor the last character.
\<close>

definition emailRegex_test :: "string \<Rightarrow> bool" where
  "emailRegex_test s =
     (let a = takeWhile (\<lambda>c. c \<noteq> CHR ''@'') s;
          r = dropWhile (\<lambda>c. c \<noteq> CHR ''@'') s
      in a \<noteq> [] \<and> r \<noteq> [] \<and> \<not> list_ex is_space s
         \<and> CHR ''@'' \<notin> set (tl r) \<and> CHR ''.'' \<in> set (butlast (tl (tl r))))"

definition validateEmail :: "jsval \<Rightarrow> jsval" where
  "validateEmail email =
     (if \<not> truthy email then JStr []
      else if emailRegex_test (js_String email) then email else JStr [])"

text \<open>The class \<^verbatim>\<open>[+\d\s()-]\<close>.\<close>

definition is_phone_char :: "char \<Rightarrow> bool" where
  "is_phone_char c = (c = CHR ''+'' \<or> is_digit c \<or> is_space c \<or> c = CHR ''('' \<or> c = CHR '')''
                      \<or> c = CHR ''-'')"

text \<open>\<^verbatim>\<open>phone.replace\<close> is a method of strings only: on another truthy value the call throws.\<close>

fun validatePhone :: "jsval \<Rightarrow> string + jsval" where
  "validatePhone (JStr phone) =
     (if phone = [] then Inr (JStr [])
      else (let cleanPhone = filter is_phone_char phone
            in Inr (JStr (if length cleanPhone \<ge> 10 then cleanPhone else []))))"
| "validatePhone phone =
     (if \<not> truthy phone then Inr (JStr []) else Inl ''phone.replace is not a function'')"

text \<open>\<^verbatim>\<open>url.replace(/^https?:\/\//, '')\<close>.\<close>

definition strip_scheme :: "string \<Rightarrow> string" where
  "strip_scheme u =
     (if starts_with u ''http://'' then drop 7 u
      else if starts_with u ''https://'' then drop 8 u else u)"

fun validateUrl :: "env \<Rightarrow> jsval \<Rightarrow> string + jsval" where
  "validateUrl E (JStr url) =
     (if url = [] then Inr (JStr [])
      else if url_hostname E url \<noteq> None then Inr (JStr url)
      else Inr (JStr (''https://'' @ strip_scheme url)))"
| "validateUrl E url =
     (if \<not> truthy url then Inr (JStr [])
      else if url_hostname E (js_String url) \<noteq> None then Inr url
      else Inl ''url.replace is not a function'')"

text \<open>\<^verbatim>\<open>Array.isArray(a) ? a.map(s => sanitize(s)).join(', ').substring(0, n) : dflt\<close>.\<close>

fun joined_field :: "nat \<Rightarrow> string \<Rightarrow> jsval \<Rightarrow> jsval" where
  "joined_field n dflt (JArr xs) = JStr (take n (js_join '', '' (map sanitize xs)))"
| "joined_field n dflt v = JStr dflt"

text \<open>\<^verbatim>\<open>sanitize(v) || dflt\<close>.\<close>

definition sanitize_or :: "jsval \<Rightarrow> string \<Rightarrow> jsval" where
  "sanitize_or v dflt = (if sanitize v = [] then JStr dflt else JStr (sanitize v))"

text \<open>\<^verbatim>\<open>Math.min(Math.max(parseInt(v) || 50, 0), 100)\<close>: \<^verbatim>\<open>NaN\<close> and 0 are falsy.\<close>

definition clamp_score :: "jsval \<Rightarrow> int" where
  "clamp_score v =
     (let p = (case js_parseInt v of None \<Rightarrow> 50 | Some n \<Rightarrow> if n = 0 then 50 else n)
      in min (max p 0) 100)"

definition validateNotionData :: "env \<Rightarrow> obj \<Rightarrow> string + obj" where
  "validateNotionData E practiceData =
     (case validatePhone (get practiceData ''phone'') of
        Inl err \<Rightarrow> Inl err
      | Inr phone \<Rightarrow>
     (case validateUrl E (get practiceData ''url'') of
        Inl err \<Rightarrow> Inl err
      | Inr website \<Rightarrow>
          Inr [(''company'', sanitize_or (get practiceData ''company'') ''Healthcare Practice''),
               (''phone'', phone),
               (''email'', validateEmail (get practiceData ''email'')),
               (''location'', sanitize_or (get practiceData ''location'') ''Healthcare Location''),
               (''website'', website),
               (''practice_id'', JStr (sanitize (get practiceData ''practiceId''))),
               (''status'', JStr ''Lead Captured''),
               (''practice_type'', sanitize_or (get practiceData ''practice_type'') ''healthcare''),
               (''services'', joined_field 1000 ''Healthcare Services'' (get practiceData ''services'')),
               (''treatments'', joined_field 1000 ''Consultation'' (get practiceData ''treatments'')),
               (''specializations'',
                  joined_field 500 ''General Healthcare'' (get practiceData ''specializations'')),
               (''lead_score'', JNum (clamp_score (get practiceData ''lead_score''))),
               (''exa_enhanced'', js_or (get practiceData ''exa_enhanced'') (JBool False)),
               (''domain'', JStr (sanitize (get practiceData ''domain''))),
               (''scraped_at'', js_or (get practiceData ''scraped_at'') (JStr (date_iso E))),
               (''last_updated'', JStr (date_iso E))]))"

text \<open>
  What the storage step hands on: \<^verbatim>\<open>{ success, leadId, record }\<close> from the store,
  \<^verbatim>\<open>{ success: false, error }\<close> when the call is rejected, and the fallback with
  \<^verbatim>\<open>is_fallback: true\<close>; the orchestrator's emergency record has
  \<^verbatim>\<open>is_emergency_fallback: true\<close>. An absent flag is \<open>False\<close>.
\<close>

record notion_result =
  nr_success :: bool
  nr_leadId :: "string option"
  nr_record :: "obj option"
  nr_is_fallback :: bool
  nr_is_emergency_fallback :: bool
  nr_error :: "string option"

definition attemptNotionStorage :: "env \<Rightarrow> obj \<Rightarrow> notion_result" where
  "attemptNotionStorage E validatedData =
     (if notion_call_ok E
      then \<lparr>nr_success = True,
            nr_leadId = Some (''notion_'' @ show_nat (date_now E) @ ''_'' @ random36 E),
            nr_record = Some validatedData, nr_is_fallback = False,
            nr_is_emergency_fallback = False, nr_error = None\<rparr>
      else \<lparr>nr_success = False, nr_leadId = None, nr_record = None, nr_is_fallback = False,
            nr_is_emergency_fallback = False,
            nr_error = Some ''Notion API rate limit exceeded''\<rparr>)"

definition createFallbackNotionRecord :: "env \<Rightarrow> obj \<Rightarrow> notion_result" where
  "createFallbackNotionRecord E practiceData =
     (let fallbackRecord =
        [(''company'', js_or (get practiceData ''company'') (JStr ''Healthcare Practice'')),
         (''doctor'', js_or (get practiceData ''doctor'') (JStr ''Dr. Smith'')),
         (''phone'', js_or (get practiceData ''phone'') (JStr [])),
         (''email'', js_or (get practiceData ''email'') (JStr [])),
         (''location'', js_or (get practiceData ''location'') (JStr ''Healthcare Location'')),
         (''website'', js_or (get practiceData ''url'') (JStr [])),
         (''practice_id'',
            js_or (get practiceData ''practiceId'') (JStr (''practice_'' @ show_nat (date_now E)))),
         (''status'', JStr ''Fallback Record''),
         (''services'',
            (case get practiceData ''services'' of
               JArr xs \<Rightarrow> JStr (join_values '', '' xs)
             | _ \<Rightarrow> JStr ''Healthcare Services'')),
         (''created_at'', JStr (date_iso E)),
         (''fallback_reason'', JStr ''Notion API unavailable - continuing workflow'')]
      in \<lparr>nr_success = True,
          nr_leadId = Some (''fallback_'' @ show_nat (date_now E) @ ''_'' @ random36 E),
          nr_record = Some fallbackRecord, nr_is_fallback = True,
          nr_is_emergency_fallback = False, nr_error = None\<rparr>)"

text \<open>
  \<^verbatim>\<open>storeLeadInNotion\<close>: the \<^verbatim>\<open>try\<close> block validates and calls the store; its
  \<^verbatim>\<open>catch\<close> builds the fallback from the record as it came in. \<open>Inl\<close> would be an exception
  that leaves the function.
\<close>

definition storeLeadInNotion :: "env \<Rightarrow> obj \<Rightarrow> string + notion_result" where
  "storeLeadInNotion E practiceData =
     (case validateNotionData E practiceData of
        Inr validatedData \<Rightarrow>
          (let notionResult = attemptNotionStorage E validatedData
           in if nr_success notionResult then Inr notionResult
              else Inr (createFallbackNotionRecord E validatedData))
      | Inl err \<Rightarrow> Inr (createFallbackNotionRecord E practiceData))"

section \<open>Provisioning: the strategy cascade\<close>

record railway_result =
  rr_project_id :: string
  rr_service_id :: string
  rr_domain_url :: string

text \<open>
  A deployment result. The strategies fill different properties; \<open>None\<close> is a property that
  is absent (or \<^verbatim>\<open>null\<close>, for \<^verbatim>\<open>github_repo\<close> of the direct strategy).
\<close>

record deployment =
  dp_success :: bool
  dp_github_repo :: "string option"
  dp_railway_url :: "string option"
  dp_project_id :: "string option"
  dp_service_id :: "string option"
  dp_method :: string
  dp_error :: "string option"
  dp_note :: "string option"
  dp_fallback_reason :: "string option"

text \<open>
  \<^verbatim>\<open>deployToRailwayViaMCP\<close>: whatever is thrown inside, the missing client included, is
  thrown again with a prefix.
\<close>

definition railway_calls :: "env \<Rightarrow> obj \<Rightarrow> string \<Rightarrow> string + railway_result" where
  "railway_calls E practiceData repoName =
     (case railwayMCP E of
        None \<Rightarrow> Inl ''Cannot read properties of undefined (reading 'createProject')''
      | Some mcp \<Rightarrow>
     (case createProject mcp (js_String (get practiceData ''practiceId'') @ ''-healthcare'') of
        Inl err \<Rightarrow> Inl err
      | Inr createResult \<Rightarrow>
     if \<not> pr_success createResult then Inl ''Failed to create Railway project''
     else
     (case createServiceFromRepo mcp (pr_project_id createResult) (''jomarcello/'' @ repoName) of
        Inl err \<Rightarrow> Inl err
      | Inr serviceResult \<Rightarrow>
     if \<not> sr_success serviceResult then Inl ''Failed to create Railway service''
     else
     (case setEnvironmentVariables mcp (pr_project_id createResult) (sr_service_id serviceResult)
             [(''NEXT_PUBLIC_PRACTICE_ID'', get practiceData ''practiceId''),
              (''NEXT_PUBLIC_COMPANY'', get practiceData ''company''),
              (''NEXT_PUBLIC_DOMAIN'', get practiceData ''domain'')] of
        Inl err \<Rightarrow> Inl err
      | Inr _ \<Rightarrow>
     (case createDomain mcp (sr_service_id serviceResult) (sr_environment_id serviceResult) of
        Inl err \<Rightarrow> Inl err
      | Inr domain_url \<Rightarrow>
          Inr \<lparr>rr_project_id = pr_project_id createResult,
               rr_service_id = sr_service_id serviceResult,
               rr_domain_url =
                 (if domain_url \<noteq> [] then domain_url
                  else ''https://'' @ js_String (get practiceData ''practiceId'')
                       @ ''-service-production.up.railway.app'')\<rparr>)))))"

definition deployToRailwayViaMCP :: "env \<Rightarrow> obj \<Rightarrow> string \<Rightarrow> string + railway_result" where
  "deployToRailwayViaMCP E practiceData repoName =
     (case railway_calls E practiceData repoName of
        Inl message \<Rightarrow> Inl (''Railway MCP deployment failed: '' @ message)
      | Inr r \<Rightarrow> Inr r)"

definition createDirectRailwayService :: "env \<Rightarrow> obj \<Rightarrow> string + railway_result" where
  "createDirectRailwayService E practiceData =
     (let projectName = js_String (get practiceData ''practiceId'') @ ''-direct-''
                        @ show_nat (date_now E)
      in case railwayMCP E of
           None \<Rightarrow> Inl ''Cannot read properties of undefined (reading 'createProject')''
         | Some mcp \<Rightarrow>
        (case createProject mcp projectName of
           Inl err \<Rightarrow> Inl err
         | Inr projectResult \<Rightarrow>
        (case createServiceFromImage mcp (pr_project_id projectResult) ''nginx:alpine'' of
           Inl err \<Rightarrow> Inl err
         | Inr serviceResult \<Rightarrow>
             Inr \<lparr>rr_project_id = pr_project_id projectResult,
                  rr_service_id = sr_service_id serviceResult,
                  rr_domain_url = ''https://'' @ js_String (get practiceData ''practiceId'')
                                  @ ''-direct-production.up.railway.app''\<rparr>)))"

definition attemptFullGithubRailwayDeployment :: "env \<Rightarrow> obj \<Rightarrow> string + deployment" where
  "attemptFullGithubRailwayDeployment E practiceData =
     (let repoName = js_String (get practiceData ''practiceId'') @ ''-demo''
      in case github_create E practiceData repoName of
           GithubFailure err \<Rightarrow> Inl (''GitHub creation failed: '' @ err)
         | GithubSuccess name url clone \<Rightarrow>
            (case deployToRailwayViaMCP E practiceData name of
               Inl message \<Rightarrow> Inl (''Railway deployment failed: '' @ message)
             | Inr railwayResult \<Rightarrow>
                 Inr \<lparr>dp_success = True, dp_github_repo = Some url,
                      dp_railway_url = Some (rr_domain_url railwayResult),
                      dp_project_id = Some (rr_project_id railwayResult),
                      dp_service_id = Some (rr_service_id railwayResult),
                      dp_method = ''full-github-railway'', dp_error = None, dp_note = None,
                      dp_fallback_reason = None\<rparr>))"

definition attemptExistingRepoDeployment :: "env \<Rightarrow> obj \<Rightarrow> string + deployment" where
  "attemptExistingRepoDeployment E practiceData =
     (case deployToRailwayViaMCP E practiceData ''Agentsdemo'' of
        Inl message \<Rightarrow> Inl message
      | Inr railwayResult \<Rightarrow>
          Inr \<lparr>dp_success = True, dp_github_repo = Some ''https://github.com/jomarcello/Agentsdemo'',
               dp_railway_url = Some (rr_domain_url railwayResult),
               dp_project_id = Some (rr_project_id railwayResult),
               dp_service_id = Some (rr_service_id railwayResult),
               dp_method = ''existing-repo-railway'', dp_error = None, dp_note = None,
               dp_fallback_reason = None\<rparr>)"

definition attemptDirectRailwayMCP :: "env \<Rightarrow> obj \<Rightarrow> string + deployment" where
  "attemptDirectRailwayMCP E practiceData =
     (case createDirectRailwayService E practiceData of
        Inl message \<Rightarrow> Inl message
      | Inr railwayResult \<Rightarrow>
          Inr \<lparr>dp_success = True, dp_github_repo = None,
               dp_railway_url = Some (rr_domain_url railwayResult),
               dp_project_id = Some (rr_project_id railwayResult),
               dp_service_id = Some (rr_service_id railwayResult),
               dp_method = ''direct-railway-mcp'', dp_error = None, dp_note = None,
               dp_fallback_reason = None\<rparr>)"

definition createEmergencyMockDeployment :: "env \<Rightarrow> obj \<Rightarrow> deployment" where
  "createEmergencyMockDeployment E practiceData =
     (let mockUrl = ''https://'' @ js_String (get practiceData ''practiceId'') @ ''-emergency-''
                    @ show_nat (date_now E) @ ''.mock.demo''
      in \<lparr>dp_success = True, dp_github_repo = Some ''https://github.com/jomarcello/Agentsdemo'',
          dp_railway_url = Some mockUrl,
          dp_project_id = Some ''emergency-mock'',
          dp_service_id = Some ''emergency-service'',
          dp_method = ''emergency-mock'', dp_error = None,
          dp_note = Some ''Emergency mock deployment - workflow completed with simulated resources'',
          dp_fallback_reason = None\<rparr>)"

record strategy =
  st_name :: string
  st_priority :: nat

definition deploymentStrategies :: "strategy list" where
  "deploymentStrategies =
     [\<lparr>st_name = ''full-github-railway'', st_priority = 1\<rparr>,
      \<lparr>st_name = ''existing-repo-railway'', st_priority = 2\<rparr>,
      \<lparr>st_name = ''direct-railway-mcp'', st_priority = 3\<rparr>,
      \<lparr>st_name = ''emergency-mock'', st_priority = 4\<rparr>]"

text \<open>
  The \<^verbatim>\<open>switch\<close> inside the \<^verbatim>\<open>try\<close> block: \<open>Some (Inr r)\<close> is \<^verbatim>\<open>return r\<close>,
  \<open>Some (Inl m)\<close> an exception with message \<open>m\<close>, \<open>None\<close> a name without \<^verbatim>\<open>case\<close>.
\<close>

definition run_strategy :: "env \<Rightarrow> obj \<Rightarrow> string \<Rightarrow> (string + deployment) option" where
  "run_strategy E practiceData name =
     (if name = ''full-github-railway'' then Some (attemptFullGithubRailwayDeployment E practiceData)
      else if name = ''existing-repo-railway'' then Some (attemptExistingRepoDeployment E practiceData)
      else if name = ''direct-railway-mcp'' then Some (attemptDirectRailwayMCP E practiceData)
      else if name = ''emergency-mock'' then Some (Inr (createEmergencyMockDeployment E practiceData))
      else None)"

text \<open>
  The \<^verbatim>\<open>for\<close> loop of \<^verbatim>\<open>createPersonalizedRepository\<close>. A strategy that returns ends the
  loop; one that throws is caught, and the loop goes on unless its priority is 4. \<open>None\<close> is
  the loop running out, where the function returns \<^verbatim>\<open>undefined\<close>.
\<close>

fun cascade :: "env \<Rightarrow> obj \<Rightarrow> strategy list \<Rightarrow> deployment option" where
  "cascade E practiceData [] = None"
| "cascade E practiceData (s # rest) =
     (case run_strategy E practiceData (st_name s) of
        Some (Inr r) \<Rightarrow> Some r
      | Some (Inl message) \<Rightarrow>
          if st_priority s = 4
          then Some \<lparr>dp_success = False, dp_github_repo = None, dp_railway_url = None,
                     dp_project_id = None, dp_service_id = None, dp_method = ''all-failed'',
                     dp_error = Some (''All deployment strategies failed. Last error: '' @ message),
                     dp_note = None, dp_fallback_reason = None\<rparr>
          else cascade E practiceData rest
      | None \<Rightarrow> cascade E practiceData rest)"

definition createPersonalizedRepository :: "env \<Rightarrow> obj \<Rightarrow> deployment option" where
  "createPersonalizedRepository E practiceData = cascade E practiceData deploymentStrategies"

section \<open>The phase orchestrator\<close>

text \<open>
  The repository holds the agent in two variants. Scoring, enrichment, validation, storage and
  the batch coordinator are the same text in both. The fault-tolerant variant, which has the
  strategy cascade above and the workflow status, is the one modelled here.
\<close>

text \<open>
  One entry of \<^verbatim>\<open>stepResults\<close>. The flags \<^verbatim>\<open>fallback_used\<close> and
  \<^verbatim>\<open>emergency_fallback\<close> are \<open>False\<close> where the object literal does not set them.
\<close>

record 'a step =
  sp_success :: bool
  sp_error :: "string option"
  sp_data :: "'a option"
  sp_fallback_used :: bool
  sp_emergency_fallback :: bool

text \<open>
  The result of a run. The \<^verbatim>\<open>timing\<close> block (clock readings) and the constant
  \<^verbatim>\<open>elevenlabs_agent\<close> block are left out, as is the bookkeeping in
  \<^verbatim>\<open>this.deploymentResults\<close> and \<^verbatim>\<open>this.currentStep\<close>: the status does not read them.
\<close>

record workflow_result =
  wf_success :: bool
  wf_workflow_status :: string
  wf_practice :: obj
  wf_github_repo :: "string option"
  wf_railway_url :: "string option"
  wf_method :: string
  wf_project_id :: "string option"
  wf_service_id :: "string option"
  wf_notion_stored :: bool
  wf_notion_lead_id :: "string option"
  wf_notion_is_fallback :: bool
  wf_scraping :: "obj step"
  wf_notion :: "notion_result step"
  wf_deployment :: "deployment step"
  wf_successful_steps :: nat
  wf_total_steps :: nat
  wf_success_rate :: string
  wf_fallbacks_used :: "string list"

definition createMinimalFallbackData :: "env \<Rightarrow> string \<Rightarrow> string + obj" where
  "createMinimalFallbackData E url =
     (case url_hostname E url of
        None \<Rightarrow> Inl ''Invalid URL''
      | Some h \<Rightarrow>
         (let hostname = replace_first ''www.'' [] h;
              first = (case split_on (\<lambda>c. c = CHR ''.'') hostname of [] \<Rightarrow> [] | x # _ \<Rightarrow> x)
          in Inr
           [(''company'', JStr (capitalize first @ '' Healthcare'')),
            (''doctor'', JStr ''Dr. Healthcare''),
            (''phone'', JStr []),
            (''email'', JStr []),
            (''location'', JStr ''Healthcare Location''),
            (''services'', str_array [''General Healthcare'']),
            (''url'', JStr url),
            (''practiceId'', JStr (''fallback-'' @ filter is_alnum hostname @ ''-''
                                   @ slice_last 6 (show_nat (date_now E)))),
            (''scraped_at'', JStr (date_iso E)),
            (''practice_type'', JStr ''healthcare''),
            (''lead_score'', JNum 30),
            (''fallback_reason'', JStr ''Scraping failed - using URL-based fallback data'')]))"

text \<open>
  Phase 0. The \<^verbatim>\<open>try\<close> block throws when scraping throws or yields no company; the
  \<^verbatim>\<open>catch\<close> block builds the minimal record, which parses the URL and can throw itself:
  then the exception leaves the orchestrator (\<open>Inl\<close>).
\<close>

definition phase_scraping :: "env \<Rightarrow> string \<Rightarrow> string + (obj \<times> obj step)" where
  "phase_scraping E url =
     (let attempt =
        (case scrapeHealthcarePractice E url of
           Inl message \<Rightarrow> Inl message
         | Inr practiceData \<Rightarrow>
             if \<not> truthy (get practiceData ''company'')
             then Inl ''No valid practice data extracted'' else Inr practiceData)
      in case attempt of
           Inr practiceData \<Rightarrow>
             Inr (practiceData,
                  \<lparr>sp_success = True, sp_error = None, sp_data = Some practiceData,
                   sp_fallback_used = False, sp_emergency_fallback = False\<rparr>)
         | Inl message \<Rightarrow>
            (case createMinimalFallbackData E url of
               Inl err \<Rightarrow> Inl err
             | Inr practiceData \<Rightarrow>
                 Inr (practiceData,
                      \<lparr>sp_success = False, sp_error = Some message, sp_data = Some practiceData,
                       sp_fallback_used = True, sp_emergency_fallback = False\<rparr>)))"

text \<open>Phase 1.\<close>

definition phase_notion :: "env \<Rightarrow> obj \<Rightarrow> notion_result \<times> notion_result step" where
  "phase_notion E practiceData =
     (case storeLeadInNotion E practiceData of
        Inr notionResult \<Rightarrow>
          (notionResult,
           \<lparr>sp_success = True, sp_error = None, sp_data = Some notionResult,
            sp_fallback_used = False, sp_emergency_fallback = False\<rparr>)
      | Inl message \<Rightarrow>
          (let notionResult =
             \<lparr>nr_success = True, nr_leadId = Some (''emergency_'' @ show_nat (date_now E)),
              nr_record = Some [(''company'', get practiceData ''company''),
                                (''status'', JStr ''Emergency Fallback'')],
              nr_is_fallback = False, nr_is_emergency_fallback = True, nr_error = None\<rparr>
           in (notionResult,
               \<lparr>sp_success = False, sp_error = Some message, sp_data = Some notionResult,
                sp_fallback_used = False, sp_emergency_fallback = True\<rparr>)))"

text \<open>
  Phase 2 and 3. When the cascade returns \<^verbatim>\<open>undefined\<close>, reading its \<^verbatim>\<open>success\<close> throws
  inside the \<^verbatim>\<open>try\<close> block and the \<^verbatim>\<open>catch\<close> block builds the fallback record.
\<close>

definition phase_deployment :: "env \<Rightarrow> obj \<Rightarrow> deployment \<times> deployment step" where
  "phase_deployment E practiceData =
     (case createPersonalizedRepository E practiceData of
        Some deploymentResult \<Rightarrow>
          (deploymentResult,
           \<lparr>sp_success = dp_success deploymentResult, sp_error = None,
            sp_data = Some deploymentResult,
            sp_fallback_used = False, sp_emergency_fallback = False\<rparr>)
      | None \<Rightarrow>
          (let message = ''Cannot read properties of undefined (reading 'success')'';
               deploymentResult =
                 \<lparr>dp_success = False, dp_github_repo = Some ''N/A - Deployment Failed'',
                  dp_railway_url = Some ''N/A - Deployment Failed'',
                  dp_project_id = None, dp_service_id = None,
                  dp_method = ''failed-with-fallback'', dp_error = Some message, dp_note = None,
                  dp_fallback_reason = Some message\<rparr>
           in (deploymentResult,
               \<lparr>sp_success = False, sp_error = Some message, sp_data = Some deploymentResult,
                sp_fallback_used = True, sp_emergency_fallback = False\<rparr>)))"

text \<open>\<^verbatim>\<open>Math.round((n / m) * 100)\<close> for natural numbers, \<open>m\<close> not zero.\<close>

definition round_percent :: "nat \<Rightarrow> nat \<Rightarrow> nat" where
  "round_percent n m = (200 * n + m) div (2 * m)"

text \<open>
  Phase 4: the number of successful steps decides the status; the result collects what the
  phases produced.
\<close>

definition workflow_status_of :: "nat \<Rightarrow> nat \<Rightarrow> string" where
  "workflow_status_of successfulSteps totalSteps =
     (if successfulSteps = totalSteps then ''complete''
      else if successfulSteps > 0 then ''partial-success''
      else ''failed'')"

definition workflow_completion ::
  "obj \<Rightarrow> obj step \<Rightarrow> notion_result \<Rightarrow> notion_result step \<Rightarrow> deployment \<Rightarrow> deployment step
   \<Rightarrow> workflow_result" where
  "workflow_completion practiceData scraping notionResult notion deploymentResult deployment =
     (let successfulSteps =
            length (filter id [sp_success scraping, sp_success notion, sp_success deployment]);
          totalSteps = 3;
          workflowStatus = workflow_status_of successfulSteps totalSteps
      in \<lparr>wf_success = (workflowStatus \<noteq> ''failed''),
          wf_workflow_status = workflowStatus,
          wf_practice = [(''company'', get practiceData ''company''),
                         (''doctor'', get practiceData ''doctor''),
                         (''location'', get practiceData ''location''),
                         (''practice_id'', get practiceData ''practiceId'')],
          wf_github_repo = dp_github_repo deploymentResult,
          wf_railway_url = dp_railway_url deploymentResult,
          wf_method = dp_method deploymentResult,
          wf_project_id = dp_project_id deploymentResult,
          wf_service_id = dp_service_id deploymentResult,
          wf_notion_stored = nr_success notionResult,
          wf_notion_lead_id = nr_leadId notionResult,
          wf_notion_is_fallback =
            (nr_is_fallback notionResult \<or> nr_is_emergency_fallback notionResult),
          wf_scraping = scraping,
          wf_notion = notion,
          wf_deployment = deployment,
          wf_successful_steps = successfulSteps,
          wf_total_steps = totalSteps,
          wf_success_rate = show_nat (round_percent successfulSteps totalSteps) @ ''%'',
          wf_fallbacks_used =
            (if sp_fallback_used scraping then [''scraping''] else [])
            @ (if sp_emergency_fallback notion then [''notion-emergency''] else [])
            @ (if sp_fallback_used deployment then [''deployment''] else [])\<rparr>)"

text \<open>The whole workflow: the three phases in sequence, then the completion.\<close>

definition processHealthcarePractice :: "env \<Rightarrow> string \<Rightarrow> string + workflow_result" where
  "processHealthcarePractice E url =
     (case phase_scraping E url of
        Inl err \<Rightarrow> Inl err
      | Inr (practiceData, scraping) \<Rightarrow>
         (let (notionResult, notion) = phase_notion E practiceData;
              (deploymentResult, deployment) = phase_deployment E practiceData
          in Inr (workflow_completion practiceData scraping notionResult notion
                    deploymentResult deployment)))"

section \<open>The batch coordinator\<close>

text \<open>
  One entry of the batch result: \<^verbatim>\<open>{ url, success: true, result }\<close>, or
  \<^verbatim>\<open>{ url, success: false, error }\<close> when the workflow threw.
\<close>

record 'r batch_entry =
  be_url :: string
  be_success :: bool
  be_result :: "'r option"
  be_error :: "string option"

definition batch_item :: "(string \<Rightarrow> string + 'r) \<Rightarrow> string \<Rightarrow> 'r batch_entry" where
  "batch_item process url =
     (case process url of
        Inr result \<Rightarrow> \<lparr>be_url = url, be_success = True, be_result = Some result, be_error = None\<rparr>
      | Inl message \<Rightarrow> \<lparr>be_url = url, be_success = False, be_result = None, be_error = Some message\<rparr>)"

text \<open>
  What happens in a batch, in order: a workflow is started for a URL, a workflow has settled,
  the two-second pause. The workflows of one window run concurrently; \<^verbatim>\<open>Promise.all\<close>
  resumes the loop when all of them have settled and gives their results in the order of
  the window, whatever the order of settling was. The log lists the settlements of a window
  in the order of the window.
\<close>

datatype batch_event = Started string | Settled string | Paused

record 'r batch_state =
  bs_results :: "'r batch_entry list"
  bs_windows :: "string list list"
  bs_log :: "batch_event list"

text \<open>
  The loop \<^verbatim>\<open>for (let i = 0; i < urls.length; i += concurrencyLimit)\<close>, where
  \<^verbatim>\<open>urls.slice(i, i + concurrencyLimit)\<close> is \<open>take concurrencyLimit (drop i urls)\<close>.
\<close>

definition concurrencyLimit :: nat where
  "concurrencyLimit = 3"

function batch_loop ::
  "(string \<Rightarrow> string + 'r) \<Rightarrow> string list \<Rightarrow> nat \<Rightarrow> 'r batch_state \<Rightarrow> 'r batch_state" where
  "batch_loop process urls i st =
     (if i < length urls
      then (let batch = take concurrencyLimit (drop i urls);
                batchResults = map (batch_item process) batch
            in batch_loop process urls (i + concurrencyLimit)
                 \<lparr>bs_results = bs_results st @ batchResults,
                  bs_windows = bs_windows st @ [batch],
                  bs_log = bs_log st @ map Started batch @ map Settled batch
                           @ (if i + concurrencyLimit < length urls then [Paused] else [])\<rparr>)
      else st)"
  by pat_completeness auto
termination
  by (relation "measure (\<lambda>(process, urls, i, st). length urls - i)")
     (auto simp add: concurrencyLimit_def)

declare batch_loop.simps [simp del]

definition run_batch :: "(string \<Rightarrow> string + 'r) \<Rightarrow> string list \<Rightarrow> 'r batch_state" where
  "run_batch process urls =
     batch_loop process urls 0 \<lparr>bs_results = [], bs_windows = [], bs_log = []\<rparr>"

definition processBatchHealthcarePractices ::
  "(string \<Rightarrow> string + 'r) \<Rightarrow> string list \<Rightarrow> 'r batch_entry list" where
  "processBatchHealthcarePractices process urls = bs_results (run_batch process urls)"

section \<open>The format of a practice id\<close>



section \<open>Well-typed lead records\<close>

text \<open>A property that holds a string or is absent, as in every record that enrichment builds.\<close>

fun string_or_absent :: "jsval \<Rightarrow> bool" where
  "string_or_absent JUndefined = True"
| "string_or_absent (JStr s) = True"
| "string_or_absent v = False"

text \<open>The stored payload is kept in a record: every property of the payload is in the record.\<close>

definition payload_preserved :: "obj \<Rightarrow> obj \<Rightarrow> bool" where
  "payload_preserved payload rec = list_all (\<lambda>(k, v). get rec k = v) payload"

section \<open>Example inputs\<close>

text \<open>
  An environment without search key, with a clock reading of 3 November 2025, where the
  Notion call is rejected, GitHub refuses and no Railway client is set. Its URL parser
  agrees with the platform's on the URLs used below: \<^verbatim>\<open>https://\<close> followed by a host of
  lower-case letters, digits, dots and hyphens.
\<close>

definition is_host_char :: "char \<Rightarrow> bool" where
  "is_host_char c = (is_lower c \<or> is_digit c \<or> c = CHR ''.'' \<or> c = CHR ''-'')"

definition offline_env :: env where
  "offline_env =
     \<lparr>url_hostname =
        (\<lambda>u. if starts_with u ''https://'' \<and> drop 8 u \<noteq> [] \<and> list_all is_host_char (drop 8 u)
             then Some (drop 8 u) else None),
      date_now = 1762146000123,
      date_iso = ''2025-11-03T05:00:00.123Z'',
      random36 = ''k3j9x'',
      notion_call_ok = False,
      exa_api_key = None,
      exa_post = (\<lambda>query domain. Inl ''Network Error''),
      classify = (\<lambda>content. \<lparr>cl_services = [], cl_treatments = [], cl_specializations = [],
                              cl_phone = [], cl_email = [], cl_location = None,
                              cl_practice_type = ''general-healthcare''\<rparr>),
      github_create = (\<lambda>practiceData repoName. GithubFailure ''Bad credentials''),
      railwayMCP = None\<rparr>"

definition example_url :: string where
  "example_url = ''https://drsmith-dental.example.com''"

text \<open>The record that enrichment yields for \<open>example_url\<close> in \<open>offline_env\<close>.\<close>

definition example_lead :: obj where
  "example_lead =
     [(''company'', JStr ''Drsmith Dental Example Healthcare''),
      (''phone'', JStr []),
      (''email'', JStr []),
      (''location'', JStr ''Practice Location''),
      (''services'', JArr [JStr ''Healthcare Services'']),
      (''treatments'', JArr [JStr ''Consultation'']),
      (''specializations'', JArr [JStr ''General Healthcare'']),
      (''url'', JStr ''https://drsmith-dental.example.com''),
      (''domain'', JStr ''drsmith-dental.example.com''),
      (''scraped_at'', JStr ''2025-11-03T05:00:00.123Z''),
      (''practice_type'', JStr ''general-healthcare''),
      (''lead_score'', JNum 68),
      (''exa_enhanced'', JBool True),
      (''practiceId'', JStr ''drsmith-dental-example-healthc-000123'')]"

text \<open>\<open>example_lead\<close> after validation, after a second validation, and as a fallback record.\<close>

definition example_validated :: obj where
  "example_validated =
     [(''company'', JStr ''Drsmith Dental Example Healthcare''),
      (''phone'', JStr []),
      (''email'', JStr []),
      (''location'', JStr ''Practice Location''),
      (''website'', JStr ''https://drsmith-dental.example.com''),
      (''practice_id'', JStr ''drsmith-dental-example-healthc-000123''),
      (''status'', JStr ''Lead Captured''),
      (''practice_type'', JStr ''general-healthcare''),
      (''services'', JStr ''Healthcare Services''),
      (''treatments'', JStr ''Consultation''),
      (''specializations'', JStr ''General Healthcare''),
      (''lead_score'', JNum 68),
      (''exa_enhanced'', JBool True),
      (''domain'', JStr ''drsmith-dental.example.com''),
      (''scraped_at'', JStr ''2025-11-03T05:00:00.123Z''),
      (''last_updated'', JStr ''2025-11-03T05:00:00.123Z'')]"

definition example_revalidated :: obj where
  "example_revalidated =
     [(''company'', JStr ''Drsmith Dental Example Healthcare''),
      (''phone'', JStr []),
      (''email'', JStr []),
      (''location'', JStr ''Practice Location''),
      (''website'', JStr []),
      (''practice_id'', JStr []),
      (''status'', JStr ''Lead Captured''),
      (''practice_type'', JStr ''general-healthcare''),
      (''services'', JStr ''Healthcare Services''),
      (''treatments'', JStr ''Consultation''),
      (''specializations'', JStr ''General Healthcare''),
      (''lead_score'', JNum 68),
      (''exa_enhanced'', JBool True),
      (''domain'', JStr ''drsmith-dental.example.com''),
      (''scraped_at'', JStr ''2025-11-03T05:00:00.123Z''),
      (''last_updated'', JStr ''2025-11-03T05:00:00.123Z'')]"

definition example_fallback_record :: obj where
  "example_fallback_record =
     [(''company'', JStr ''Drsmith Dental Example Healthcare''),
      (''doctor'', JStr ''Dr. Smith''),
      (''phone'', JStr []),
      (''email'', JStr []),
      (''location'', JStr ''Practice Location''),
      (''website'', JStr []),
      (''practice_id'', JStr ''practice_1762146000123''),
      (''status'', JStr ''Fallback Record''),
      (''services'', JStr ''Healthcare Services''),
      (''created_at'', JStr ''2025-11-03T05:00:00.123Z''),
      (''fallback_reason'', JStr ''Notion API unavailable - continuing workflow'')]"

section \<open>Properties of the scoring function\<close>

lemma calculateLeadScore_closed_form: "calculateLeadScore e = score_spec e"
  by (cases "ed_services e"; cases "ed_treatments e"; cases "ed_specializations e";
      cases "ed_content_analyzed e")
     (simp_all add: calculateLeadScore_def score_spec_def services_bonus_def treatments_bonus_def
        flag_bonus_def n_services_def n_treatments_def n_specializations_def n_content_def
        has_phone_def has_email_def has_location_def length_gt0_def length_of_def gt_1000_def
        Let_def min_def)

lemma score_spec_bounds: "50 \<le> score_spec e \<and> score_spec e \<le> 100"
  by (simp add: score_spec_def services_bonus_def treatments_bonus_def flag_bonus_def)

lemma score_spec_mono:
  assumes "signals_le a b"
  shows "score_spec a \<le> score_spec b"
proof -
  from assms have s: "services_bonus a \<le> services_bonus b"
    and t: "treatments_bonus a \<le> treatments_bonus b"
    by (auto simp add: signals_le_def services_bonus_def treatments_bonus_def min_def)
  from assms have p: "flag_bonus (has_phone a) 10 \<le> flag_bonus (has_phone b) 10"
    and m: "flag_bonus (has_email a) 10 \<le> flag_bonus (has_email b) 10"
    and l: "flag_bonus (has_location a) 5 \<le> flag_bonus (has_location b) 5"
    and z: "flag_bonus (n_specializations a > 0) 5 \<le> flag_bonus (n_specializations b > 0) 5"
    and c: "flag_bonus (n_content a > 1000) 5 \<le> flag_bonus (n_content b > 1000) 5"
    by (auto simp add: signals_le_def flag_bonus_def)
  from s t p m l z c show ?thesis
    unfolding score_spec_def by linarith
qed

text \<open>
  C4. For every signals input, \<^verbatim>\<open>calculateLeadScore\<close> returns an integer between 0 and 100
  that equals the base of 50 plus the capped contributions (services at most 25, treatments at
  most 20, phone 10, email 10, location 5, a non-empty list of specializations 5, more than 1000
  characters analysed 5), cut off at 100. The model is a function of its argument alone, so
  there is no side effect.
\<close>

theorem calculateLeadScore_contract:
  "calculateLeadScore e = score_spec e
   \<and> 0 \<le> calculateLeadScore e \<and> calculateLeadScore e \<le> 100
   \<and> 0 \<le> services_bonus e \<and> services_bonus e \<le> 25
   \<and> 0 \<le> treatments_bonus e \<and> treatments_bonus e \<le> 20"
  using score_spec_bounds [of e]
  by (simp add: calculateLeadScore_closed_form services_bonus_def treatments_bonus_def)

text \<open>
  C5. \<^verbatim>\<open>calculateLeadScore\<close> is monotonically non-decreasing in each signal: when a second
  input has at least the count, or presence, of every signal of a first one (in particular
  when they agree on all signals but one, which is greater in the second), its score is at
  least the score of the first.
\<close>

theorem calculateLeadScore_mono:
  "signals_le a b \<Longrightarrow> calculateLeadScore a \<le> calculateLeadScore b"
  by (simp add: calculateLeadScore_closed_form score_spec_mono)

theorem calculateLeadScore_mono_witness:
  "signals_le
     \<lparr>ed_company = ''A Healthcare'', ed_phone = [], ed_email = [], ed_location = ''London'',
      ed_services = Some [''Healthcare Services''], ed_treatments = Some [''Consultation''],
      ed_specializations = None, ed_practice_type = ''general-healthcare'',
      ed_content_analyzed = None\<rparr>
     \<lparr>ed_company = ''A Healthcare'', ed_phone = [], ed_email = [], ed_location = ''London'',
      ed_services = Some [''Healthcare Services'', ''laser therapy''],
      ed_treatments = Some [''Consultation''],
      ed_specializations = None, ed_practice_type = ''general-healthcare'',
      ed_content_analyzed = None\<rparr>
   \<and> calculateLeadScore
     \<lparr>ed_company = ''A Healthcare'', ed_phone = [], ed_email = [], ed_location = ''London'',
      ed_services = Some [''Healthcare Services''], ed_treatments = Some [''Consultation''],
      ed_specializations = None, ed_practice_type = ''general-healthcare'',
      ed_content_analyzed = None\<rparr> = 63
   \<and> calculateLeadScore
     \<lparr>ed_company = ''A Healthcare'', ed_phone = [], ed_email = [], ed_location = ''London'',
      ed_services = Some [''Healthcare Services'', ''laser therapy''],
      ed_treatments = Some [''Consultation''],
      ed_specializations = None, ed_practice_type = ''general-healthcare'',
      ed_content_analyzed = None\<rparr> = 68"
proof -
  let ?a = "\<lparr>ed_company = ''A Healthcare'', ed_phone = [], ed_email = [], ed_location = ''London'',
      ed_services = Some [''Healthcare Services''], ed_treatments = Some [''Consultation''],
      ed_specializations = None, ed_practice_type = ''general-healthcare'',
      ed_content_analyzed = None\<rparr>"
  let ?b = "\<lparr>ed_company = ''A Healthcare'', ed_phone = [], ed_email = [], ed_location = ''London'',
      ed_services = Some [''Healthcare Services'', ''laser therapy''],
      ed_treatments = Some [''Consultation''],
      ed_specializations = None, ed_practice_type = ''general-healthcare'',
      ed_content_analyzed = None\<rparr>"
  have h: "signals_le ?a ?b"
    by (simp add: signals_le_def n_services_def n_treatments_def n_specializations_def
        n_content_def has_phone_def has_email_def has_location_def)
  have a: "calculateLeadScore ?a = 63"
    by (simp add: calculateLeadScore_def length_gt0_def length_of_def gt_1000_def)
  have b: "calculateLeadScore ?b = 68"
    by (simp add: calculateLeadScore_def length_gt0_def length_of_def gt_1000_def)
  from calculateLeadScore_mono [OF h] h a b show ?thesis by simp
qed

text \<open>
  C10. \<^verbatim>\<open>calculateLeadScore\<close> never returns less than 50: it starts from 50 and only adds
  non-negative bonuses, so its results lie between 50 and 100 and a lower clamp is never
  needed.
\<close>

theorem calculateLeadScore_at_least_base:
  "50 \<le> calculateLeadScore e \<and> calculateLeadScore e \<le> 100"
  using score_spec_bounds [of e] by (simp add: calculateLeadScore_closed_form)


section \<open>The batch coordinator: windows and order\<close>

lemma batch_loop_results:
  "bs_results (batch_loop process urls i st) = bs_results st @ map (batch_item process) (drop i urls)"
proof (induction process urls i st rule: batch_loop.induct)
  case (1 process urls i st)
  show ?case
  proof (cases "i < length urls")
    case True
    have split: "take concurrencyLimit (drop i urls) @ drop (i + concurrencyLimit) urls = drop i urls"
      by (metis add.commute append_take_drop_id drop_drop)
    have "map (batch_item process) (take concurrencyLimit (drop i urls))
          @ map (batch_item process) (drop (i + concurrencyLimit) urls)
          = map (batch_item process) (drop i urls)"
      unfolding map_append [symmetric] split ..
    with True "1.IH" [OF True refl refl] show ?thesis
      by (subst batch_loop.simps) (simp add: Let_def)
  next
    case False
    then show ?thesis
      by (subst batch_loop.simps) simp
  qed
qed

lemma batch_item_url: "be_url (batch_item process url) = url"
  by (simp add: batch_item_def split: sum.splits)

lemma batch_results_in_order:
  "processBatchHealthcarePractices process urls = map (batch_item process) urls"
  by (simp add: processBatchHealthcarePractices_def run_batch_def batch_loop_results)

lemma run_batch_seven:
  "run_batch process [u1, u2, u3, u4, u5, u6, u7]
     = \<lparr>bs_results = map (batch_item process) [u1, u2, u3, u4, u5, u6, u7],
        bs_windows = [[u1, u2, u3], [u4, u5, u6], [u7]],
        bs_log = [Started u1, Started u2, Started u3, Settled u1, Settled u2, Settled u3, Paused,
          Started u4, Started u5, Started u6, Settled u4, Settled u5, Settled u6, Paused,
          Started u7, Settled u7]\<rparr>"
  unfolding run_batch_def
  by (simp add: batch_loop.simps concurrencyLimit_def Let_def)

text \<open>
  C9. For a list of 7 targets the batch coordinator, whose concurrency limit is 3, processes
  exactly the 3 windows of sizes 3, 3 and 1; every workflow of a window has settled before a
  workflow of the next window is started; and it returns exactly one result per input URL, in
  the order of the input.
\<close>

theorem batch_of_seven:
  "concurrencyLimit = 3
   \<and> bs_windows (run_batch process [u1, u2, u3, u4, u5, u6, u7]) = [[u1, u2, u3], [u4, u5, u6], [u7]]
   \<and> map length (bs_windows (run_batch process [u1, u2, u3, u4, u5, u6, u7])) = [3, 3, 1]
   \<and> bs_log (run_batch process [u1, u2, u3, u4, u5, u6, u7])
       = [Started u1, Started u2, Started u3, Settled u1, Settled u2, Settled u3, Paused,
          Started u4, Started u5, Started u6, Settled u4, Settled u5, Settled u6, Paused,
          Started u7, Settled u7]
   \<and> processBatchHealthcarePractices process [u1, u2, u3, u4, u5, u6, u7]
       = [batch_item process u1, batch_item process u2, batch_item process u3,
          batch_item process u4, batch_item process u5, batch_item process u6,
          batch_item process u7]
   \<and> length (processBatchHealthcarePractices process [u1, u2, u3, u4, u5, u6, u7]) = 7
   \<and> map be_url (processBatchHealthcarePractices process [u1, u2, u3, u4, u5, u6, u7])
       = [u1, u2, u3, u4, u5, u6, u7]"
  unfolding processBatchHealthcarePractices_def run_batch_seven
  by (simp add: batch_item_url concurrencyLimit_def)

section \<open>Evaluation rules\<close>

text \<open>The definitions that the simplifier unfolds to run the model on a concrete input.\<close>

lemmas char_eval = code_def is_digit_def is_upper_def is_lower_def is_alnum_def is_space_def
  is_printable_def lower_char_def upper_char_def digit_char_def char_of_def bit_0

lemmas string_eval = char_eval js_toLowerCase_def capitalize_def js_trim_def slice_last_def
  strip_prefix_def show_nat.simps show_int_def

section \<open>The strategy cascade is total\<close>

lemma cascade_returns: "\<exists>r. createPersonalizedRepository E pd = Some r"
  by (simp add: createPersonalizedRepository_def deploymentStrategies_def run_strategy_def
      split: sum.splits)

lemma cascade_after_three_failures:
  assumes "isl (attemptFullGithubRailwayDeployment E pd)"
    and "isl (attemptExistingRepoDeployment E pd)"
    and "isl (attemptDirectRailwayMCP E pd)"
  shows "createPersonalizedRepository E pd = Some (createEmergencyMockDeployment E pd)"
  using assms
  by (auto simp add: createPersonalizedRepository_def deploymentStrategies_def run_strategy_def isl_def)

lemma emergency_mock_succeeds:
  "dp_success (createEmergencyMockDeployment E pd) \<and> dp_method (createEmergencyMockDeployment E pd) = ''emergency-mock''"
  by (simp add: createEmergencyMockDeployment_def Let_def)

text \<open>
  C2. For every lead record the strategy cascade returns a result and no exception leaves it;
  when the first three strategies (full-github-railway, existing-repo-railway,
  direct-railway-mcp) all fail, what it returns is the result of the fourth, dependency-free
  strategy, whose \<^verbatim>\<open>success\<close> is true.
\<close>

theorem cascade_total:
  "(\<exists>r. createPersonalizedRepository E practiceData = Some r)
   \<and> (isl (attemptFullGithubRailwayDeployment E practiceData)
        \<and> isl (attemptExistingRepoDeployment E practiceData)
        \<and> isl (attemptDirectRailwayMCP E practiceData)
      \<longrightarrow> createPersonalizedRepository E practiceData
            = Some (createEmergencyMockDeployment E practiceData)
          \<and> dp_success (createEmergencyMockDeployment E practiceData)
          \<and> dp_method (createEmergencyMockDeployment E practiceData) = ''emergency-mock'')"
  using cascade_returns [of E practiceData] cascade_after_three_failures [of E practiceData]
    emergency_mock_succeeds [of E practiceData]
  by blast

lemma offline_full_fails: "isl (attemptFullGithubRailwayDeployment offline_env pd)"
  by (simp add: attemptFullGithubRailwayDeployment_def offline_env_def Let_def)

lemma offline_existing_fails: "isl (attemptExistingRepoDeployment offline_env pd)"
  by (simp add: attemptExistingRepoDeployment_def deployToRailwayViaMCP_def railway_calls_def offline_env_def)

lemma offline_direct_fails: "isl (attemptDirectRailwayMCP offline_env pd)"
  by (simp add: attemptDirectRailwayMCP_def createDirectRailwayService_def offline_env_def Let_def)

lemma offline_mock_value: "createEmergencyMockDeployment offline_env example_lead =
   \<lparr>dp_success = True, dp_github_repo = Some ''https://github.com/jomarcello/Agentsdemo'',
          dp_railway_url = Some ''https://drsmith-dental-example-healthc-000123-emergency-1762146000123.mock.demo'',
          dp_project_id = Some ''emergency-mock'',
          dp_service_id = Some ''emergency-service'',
          dp_method = ''emergency-mock'', dp_error = None,
          dp_note = Some ''Emergency mock deployment - workflow completed with simulated resources'',
          dp_fallback_reason = None\<rparr>"
  by (simp add: createEmergencyMockDeployment_def Let_def offline_env_def example_lead_def get_def string_eval)

theorem cascade_total_witness:
  "isl (attemptFullGithubRailwayDeployment offline_env example_lead)
   \<and> isl (attemptExistingRepoDeployment offline_env example_lead)
   \<and> isl (attemptDirectRailwayMCP offline_env example_lead)
   \<and> createPersonalizedRepository offline_env example_lead
       = Some \<lparr>dp_success = True, dp_github_repo = Some ''https://github.com/jomarcello/Agentsdemo'',
          dp_railway_url = Some ''https://drsmith-dental-example-healthc-000123-emergency-1762146000123.mock.demo'',
          dp_project_id = Some ''emergency-mock'',
          dp_service_id = Some ''emergency-service'',
          dp_method = ''emergency-mock'', dp_error = None,
          dp_note = Some ''Emergency mock deployment - workflow completed with simulated resources'',
          dp_fallback_reason = None\<rparr>"
  using cascade_total [of offline_env example_lead] offline_full_fails [of example_lead]
    offline_existing_fails [of example_lead] offline_direct_fails [of example_lead]
    offline_mock_value
  by simp

section \<open>The practice id\<close>












section \<open>The status of a workflow\<close>

lemma workflow_status_of_three:
  "workflow_status_of (length (filter id [a, b, c])) 3 =
     (if a \<and> b \<and> c then ''complete'' else if a \<or> b \<or> c then ''partial-success'' else ''failed'')"
  by (cases a; cases b; cases c) (simp_all add: workflow_status_of_def)

lemma completion_status:
  "wf_workflow_status (workflow_completion pd sc nr ns dr ds) =
     (if sp_success sc \<and> sp_success ns \<and> sp_success ds then ''complete''
      else if sp_success sc \<or> sp_success ns \<or> sp_success ds then ''partial-success''
      else ''failed'')"
  unfolding workflow_completion_def Let_def workflow_result.simps workflow_status_of_three ..

lemma completion_steps:
  "wf_scraping (workflow_completion pd sc nr ns dr ds) = sc"
  "wf_notion (workflow_completion pd sc nr ns dr ds) = ns"
  "wf_deployment (workflow_completion pd sc nr ns dr ds) = ds"
  "wf_fallbacks_used (workflow_completion pd sc nr ns dr ds) =
     (if sp_fallback_used sc then [''scraping''] else [])
     @ (if sp_emergency_fallback ns then [''notion-emergency''] else [])
     @ (if sp_fallback_used ds then [''deployment''] else [])"
  by (simp_all add: workflow_completion_def Let_def)

lemma phase_scraping_flags:
  assumes "phase_scraping E url = Inr (pd, sc)"
  shows "sp_fallback_used sc = (\<not> sp_success sc)"
  using assms
  by (auto simp add: phase_scraping_def Let_def split: sum.splits if_splits)

lemma phase_notion_flags:
  assumes "phase_notion E pd = (nr, ns)"
  shows "sp_emergency_fallback ns = (\<not> sp_success ns)"
  using assms
  by (auto simp add: phase_notion_def Let_def split: sum.splits)

lemma phase_deployment_flags:
  assumes "phase_deployment E pd = (dr, ds)"
  shows "sp_fallback_used ds \<longrightarrow> \<not> sp_success ds"
  using assms
  by (auto simp add: phase_deployment_def Let_def split: option.splits)

lemma process_result:
  assumes "processHealthcarePractice E url = Inr r"
  shows "\<exists>pd sc nr ns dr ds.
           phase_scraping E url = Inr (pd, sc) \<and> phase_notion E pd = (nr, ns)
           \<and> phase_deployment E pd = (dr, ds)
           \<and> r = workflow_completion pd sc nr ns dr ds"
  using assms
  by (auto simp add: processHealthcarePractice_def Let_def split: sum.splits prod.splits)

section \<open>Enrichment of a valid target\<close>

lemma extractCompanyFromUrl_nonempty: "extractCompanyFromUrl hostname \<noteq> []"
  by (simp add: extractCompanyFromUrl_def Let_def)

lemma searchWithExa_returns:
  assumes "url_hostname E url = Some hostname"
  shows "\<exists>exaData. searchWithExa E url companyName = Inr exaData
           \<and> (ed_company exaData = companyName \<or> ed_company exaData = extractCompanyFromUrl hostname)"
  using assms
  by (auto simp add: searchWithExa_def basicContentAnalysis_def extractHealthcareData_def Let_def
      split: sum.splits list.splits option.splits)

lemma scrape_try_returns:
  assumes "url_hostname E url = Some hostname"
  shows "\<exists>practiceData. scrape_try E url = Inr practiceData
           \<and> get practiceData ''company'' = JStr (extractCompanyFromUrl hostname)
           \<and> get practiceData ''practiceId''
               = JStr (generatePracticeId E (extractCompanyFromUrl hostname))
           \<and> get practiceData ''exa_enhanced'' = JBool True"
proof -
  from searchWithExa_returns [OF assms, of "extractCompanyFromUrl hostname"]
  obtain exaData where s: "searchWithExa E url (extractCompanyFromUrl hostname) = Inr exaData"
    and c: "ed_company exaData = extractCompanyFromUrl hostname"
    by auto
  show ?thesis
    by (simp add: scrape_try_def assms s c Let_def get_def extractCompanyFromUrl_nonempty)
qed

lemma scrape_returns_try:
  assumes "url_hostname E url = Some hostname"
  shows "scrapeHealthcarePractice E url = scrape_try E url"
  using scrape_try_returns [OF assms]
  by (auto simp add: scrapeHealthcarePractice_def)

text \<open>
  The \<^verbatim>\<open>catch\<close> block of \<^verbatim>\<open>scrapeHealthcarePractice\<close> never returns a record: the
  \<^verbatim>\<open>try\<close> block only throws when the URL does not parse, and then the \<^verbatim>\<open>catch\<close> block
  throws as well.
\<close>

lemma scrape_catch_never_returns:
  assumes "scrape_try E url = Inl message"
  shows "isl (scrape_catch E url message')"
proof (cases "url_hostname E url")
  case None
  then show ?thesis by (simp add: scrape_catch_def)
next
  case (Some hostname)
  from scrape_try_returns [OF Some] assms show ?thesis by auto
qed

lemma scrape_invalid_url:
  assumes "url_hostname E url = None"
  shows "isl (scrapeHealthcarePractice E url)"
  using assms by (simp add: scrapeHealthcarePractice_def scrape_try_def scrape_catch_def)


section \<open>The example run\<close>

lemma offline_hostname:
  "url_hostname offline_env example_url = Some ''drsmith-dental.example.com''"
  by (simp add: offline_env_def example_url_def is_host_char_def char_eval)

lemma example_company:
  "extractCompanyFromUrl ''drsmith-dental.example.com'' = ''Drsmith Dental Example Healthcare''"
  by (simp add: extractCompanyFromUrl_def strip_tld_def string_eval)

lemma example_location:
  "extractLocationFromUrl ''drsmith-dental.example.com'' = ''Practice Location''"
  by (simp add: extractLocationFromUrl_def string_eval)

lemma example_practiceId:
  "date_now E = 1762146000123 \<Longrightarrow>
   generatePracticeId E ''Drsmith Dental Example Healthcare'' = ''drsmith-dental-example-healthc-000123''"
  by (simp add: generatePracticeId_def string_eval)

lemma example_basic:
  assumes "url_hostname E example_url = Some ''drsmith-dental.example.com''"
  shows "basicContentAnalysis E example_url =
     Inr \<lparr>ed_company = ''Drsmith Dental Example Healthcare'', ed_phone = [], ed_email = [],
          ed_location = ''Practice Location'',
          ed_services = Some [''Healthcare Services''],
          ed_treatments = Some [''Consultation''],
          ed_specializations = Some [''General Healthcare''],
          ed_practice_type = ''general-healthcare'',
          ed_content_analyzed = None\<rparr>"
  by (simp add: basicContentAnalysis_def assms example_company example_location)

lemma example_score:
  "calculateLeadScore \<lparr>ed_company = ''Drsmith Dental Example Healthcare'', ed_phone = [], ed_email = [],
          ed_location = ''Practice Location'',
          ed_services = Some [''Healthcare Services''],
          ed_treatments = Some [''Consultation''],
          ed_specializations = Some [''General Healthcare''],
          ed_practice_type = ''general-healthcare'',
          ed_content_analyzed = None\<rparr> = 68"
  by (simp add: calculateLeadScore_def length_gt0_def length_of_def gt_1000_def)

lemma example_scrape_without_key:
  assumes "exa_api_key E = None \<or> exa_api_key E = Some []"
    and "url_hostname E example_url = Some ''drsmith-dental.example.com''"
  shows "scrapeHealthcarePractice E example_url =
     Inr [(''company'', JStr ''Drsmith Dental Example Healthcare''),
      (''phone'', JStr []),
      (''email'', JStr []),
      (''location'', JStr ''Practice Location''),
      (''services'', JArr [JStr ''Healthcare Services'']),
      (''treatments'', JArr [JStr ''Consultation'']),
      (''specializations'', JArr [JStr ''General Healthcare'']),
      (''url'', JStr example_url),
      (''domain'', JStr ''drsmith-dental.example.com''),
      (''scraped_at'', JStr (date_iso E)),
      (''practice_type'', JStr ''general-healthcare''),
      (''lead_score'', JNum 68),
      (''exa_enhanced'', JBool True),
      (''practiceId'', JStr (generatePracticeId E ''Drsmith Dental Example Healthcare''))]"
proof -
  have s: "searchWithExa E example_url c = basicContentAnalysis E example_url" for c
    using assms(1) by (auto simp add: searchWithExa_def)
  show ?thesis
    unfolding scrape_returns_try [OF assms(2)]
    by (simp add: scrape_try_def assms(2) s example_basic [OF assms(2)] example_company
        example_score str_array_def Let_def)
qed

lemma offline_scrape: "scrapeHealthcarePractice offline_env example_url = Inr example_lead"
proof -
  have k: "exa_api_key offline_env = None \<or> exa_api_key offline_env = Some []"
    and d: "date_now offline_env = 1762146000123"
    and i: "date_iso offline_env = ''2025-11-03T05:00:00.123Z''"
    by (simp_all add: offline_env_def)
  show ?thesis
    unfolding example_scrape_without_key [OF k offline_hostname] example_practiceId [OF d] i
    by (simp add: example_lead_def example_url_def)
qed


text \<open>
  C7. Claimed: without search key, enrichment of \<^verbatim>\<open>https://drsmith-dental.example.com\<close>
  gives services \<^verbatim>\<open>["Healthcare Services"]\<close>, treatments \<^verbatim>\<open>["Consultation"]\<close>, a non-empty
  company, a lead score between 50 and 60 and \<^verbatim>\<open>exa_enhanced\<close> false. In the run below the
  score is 68 and \<^verbatim>\<open>exa_enhanced\<close> is true.
\<close>

theorem enrichment_without_key_counterexample:
  "exa_api_key offline_env = None
   \<and> scrapeHealthcarePractice offline_env example_url = Inr example_lead
   \<and> get example_lead ''lead_score'' = JNum 68 \<and> \<not> (68::int) \<le> 60
   \<and> get example_lead ''exa_enhanced'' = JBool True \<and> JBool True \<noteq> JBool False"
  using offline_scrape by (simp add: offline_env_def example_lead_def get_def)

text \<open>
  C7, amended. Without search key, enrichment of \<^verbatim>\<open>https://drsmith-dental.example.com\<close>
  gives services \<^verbatim>\<open>["Healthcare Services"]\<close>, treatments \<^verbatim>\<open>["Consultation"]\<close>, the company
  \<^verbatim>\<open>Drsmith Dental Example Healthcare\<close> derived from the hostname, and the lead score 68
  (50, one service 5, one treatment 3, the location 5, one specialization 5). Nothing is
  stated about \<^verbatim>\<open>exa_enhanced\<close>.
\<close>

theorem enrichment_without_key:
  assumes "exa_api_key E = None \<or> exa_api_key E = Some []"
    and "url_hostname E example_url = Some ''drsmith-dental.example.com''"
  shows "\<exists>practiceData.
            scrapeHealthcarePractice E example_url = Inr practiceData
          \<and> get practiceData ''services'' = JArr [JStr ''Healthcare Services'']
          \<and> get practiceData ''treatments'' = JArr [JStr ''Consultation'']
          \<and> get practiceData ''company'' = JStr ''Drsmith Dental Example Healthcare''
          \<and> get practiceData ''lead_score'' = JNum 68"
  unfolding example_scrape_without_key [OF assms]
  by (simp add: get_def)

theorem enrichment_without_key_witness:
  "(exa_api_key offline_env = None \<or> exa_api_key offline_env = Some [])
   \<and> url_hostname offline_env example_url = Some ''drsmith-dental.example.com''
   \<and> (\<exists>practiceData.
            scrapeHealthcarePractice offline_env example_url = Inr practiceData
          \<and> get practiceData ''services'' = JArr [JStr ''Healthcare Services'']
          \<and> get practiceData ''treatments'' = JArr [JStr ''Consultation'']
          \<and> get practiceData ''company'' = JStr ''Drsmith Dental Example Healthcare''
          \<and> get practiceData ''lead_score'' = JNum 68)"
proof -
  have k: "exa_api_key offline_env = None \<or> exa_api_key offline_env = Some []"
    by (simp add: offline_env_def)
  from enrichment_without_key [OF k offline_hostname] k offline_hostname show ?thesis
    by blast
qed

section \<open>Every run that returns is complete\<close>

lemma store_returns: "\<exists>r. storeLeadInNotion E practiceData = Inr r"
  by (simp add: storeLeadInNotion_def Let_def split: sum.splits)

lemma cascade_success:
  "\<exists>r. createPersonalizedRepository E practiceData = Some r \<and> dp_success r"
  by (auto simp add: createPersonalizedRepository_def deploymentStrategies_def run_strategy_def
      attemptFullGithubRailwayDeployment_def attemptExistingRepoDeployment_def
      attemptDirectRailwayMCP_def createEmergencyMockDeployment_def Let_def
      split: sum.splits github_result.splits)

lemma valid_url_complete:
  assumes "url_hostname E url = Some hostname"
  shows "\<exists>r. processHealthcarePractice E url = Inr r \<and> wf_workflow_status r = ''complete''"
proof -
  from scrape_try_returns [OF assms] scrape_returns_try [OF assms]
  obtain pd where s: "scrapeHealthcarePractice E url = Inr pd"
    and c: "get pd ''company'' = JStr (extractCompanyFromUrl hostname)"
    by auto
  have p0: "phase_scraping E url =
      Inr (pd, \<lparr>sp_success = True, sp_error = None, sp_data = Some pd,
                sp_fallback_used = False, sp_emergency_fallback = False\<rparr>)"
    by (simp add: phase_scraping_def s c extractCompanyFromUrl_nonempty)
  from store_returns [of E pd] obtain nr where n: "storeLeadInNotion E pd = Inr nr" ..
  from cascade_success [of E pd] obtain dr
    where d: "createPersonalizedRepository E pd = Some dr" and ds: "dp_success dr" by blast
  show ?thesis
    by (simp add: processHealthcarePractice_def p0 phase_notion_def n phase_deployment_def d ds
        completion_status)
qed

lemma invalid_url_throws:
  assumes "url_hostname E url = None"
  shows "isl (processHealthcarePractice E url)"
  using assms
  by (simp add: processHealthcarePractice_def phase_scraping_def scrapeHealthcarePractice_def
      scrape_try_def scrape_catch_def createMinimalFallbackData_def)

section \<open>Validation\<close>

lemma validateNotionData_Inr:
  assumes "validateNotionData E r = Inr v"
  obtains phone website where
    "validatePhone (get r ''phone'') = Inr phone"
    "validateUrl E (get r ''url'') = Inr website"
    "v = [(''company'', sanitize_or (get r ''company'') ''Healthcare Practice''),
          (''phone'', phone),
          (''email'', validateEmail (get r ''email'')),
          (''location'', sanitize_or (get r ''location'') ''Healthcare Location''),
          (''website'', website),
          (''practice_id'', JStr (sanitize (get r ''practiceId''))),
          (''status'', JStr ''Lead Captured''),
          (''practice_type'', sanitize_or (get r ''practice_type'') ''healthcare''),
          (''services'', joined_field 1000 ''Healthcare Services'' (get r ''services'')),
          (''treatments'', joined_field 1000 ''Consultation'' (get r ''treatments'')),
          (''specializations'', joined_field 500 ''General Healthcare'' (get r ''specializations'')),
          (''lead_score'', JNum (clamp_score (get r ''lead_score''))),
          (''exa_enhanced'', js_or (get r ''exa_enhanced'') (JBool False)),
          (''domain'', JStr (sanitize (get r ''domain''))),
          (''scraped_at'', js_or (get r ''scraped_at'') (JStr (date_iso E))),
          (''last_updated'', JStr (date_iso E))]"
  using assms by (auto simp add: validateNotionData_def split: sum.splits)

lemma validated_fields:
  assumes "validateNotionData E r = Inr v"
  shows "get v ''company'' = sanitize_or (get r ''company'') ''Healthcare Practice''"
    and "validatePhone (get r ''phone'') = Inr (get v ''phone'')"
    and "get v ''email'' = validateEmail (get r ''email'')"
    and "get v ''location'' = sanitize_or (get r ''location'') ''Healthcare Location''"
    and "validateUrl E (get r ''url'') = Inr (get v ''website'')"
    and "get v ''practice_id'' = JStr (sanitize (get r ''practiceId''))"
    and "get v ''status'' = JStr ''Lead Captured''"
    and "get v ''practice_type'' = sanitize_or (get r ''practice_type'') ''healthcare''"
    and "get v ''services'' = joined_field 1000 ''Healthcare Services'' (get r ''services'')"
    and "get v ''treatments'' = joined_field 1000 ''Consultation'' (get r ''treatments'')"
    and "get v ''specializations'' = joined_field 500 ''General Healthcare'' (get r ''specializations'')"
    and "get v ''lead_score'' = JNum (clamp_score (get r ''lead_score''))"
    and "get v ''exa_enhanced'' = js_or (get r ''exa_enhanced'') (JBool False)"
    and "get v ''domain'' = JStr (sanitize (get r ''domain''))"
    and "get v ''scraped_at'' = js_or (get r ''scraped_at'') (JStr (date_iso E))"
    and "get v ''last_updated'' = JStr (date_iso E)"
    and "get v ''url'' = JUndefined"
    and "get v ''practiceId'' = JUndefined"
    and "get v ''doctor'' = JUndefined"
proof -
  from validateNotionData_Inr [OF assms] obtain phone website where
    p: "validatePhone (get r ''phone'') = Inr phone"
    and w: "validateUrl E (get r ''url'') = Inr website"
    and v: "v = [(''company'', sanitize_or (get r ''company'') ''Healthcare Practice''),
          (''phone'', phone),
          (''email'', validateEmail (get r ''email'')),
          (''location'', sanitize_or (get r ''location'') ''Healthcare Location''),
          (''website'', website),
          (''practice_id'', JStr (sanitize (get r ''practiceId''))),
          (''status'', JStr ''Lead Captured''),
          (''practice_type'', sanitize_or (get r ''practice_type'') ''healthcare''),
          (''services'', joined_field 1000 ''Healthcare Services'' (get r ''services'')),
          (''treatments'', joined_field 1000 ''Consultation'' (get r ''treatments'')),
          (''specializations'', joined_field 500 ''General Healthcare'' (get r ''specializations'')),
          (''lead_score'', JNum (clamp_score (get r ''lead_score''))),
          (''exa_enhanced'', js_or (get r ''exa_enhanced'') (JBool False)),
          (''domain'', JStr (sanitize (get r ''domain''))),
          (''scraped_at'', js_or (get r ''scraped_at'') (JStr (date_iso E))),
          (''last_updated'', JStr (date_iso E))]"
    by blast
  show "get v ''company'' = sanitize_or (get r ''company'') ''Healthcare Practice''"
    and "validatePhone (get r ''phone'') = Inr (get v ''phone'')"
    and "get v ''email'' = validateEmail (get r ''email'')"
    and "get v ''location'' = sanitize_or (get r ''location'') ''Healthcare Location''"
    and "validateUrl E (get r ''url'') = Inr (get v ''website'')"
    and "get v ''practice_id'' = JStr (sanitize (get r ''practiceId''))"
    and "get v ''status'' = JStr ''Lead Captured''"
    and "get v ''practice_type'' = sanitize_or (get r ''practice_type'') ''healthcare''"
    and "get v ''services'' = joined_field 1000 ''Healthcare Services'' (get r ''services'')"
    and "get v ''treatments'' = joined_field 1000 ''Consultation'' (get r ''treatments'')"
    and "get v ''specializations'' = joined_field 500 ''General Healthcare'' (get r ''specializations'')"
    and "get v ''lead_score'' = JNum (clamp_score (get r ''lead_score''))"
    and "get v ''exa_enhanced'' = js_or (get r ''exa_enhanced'') (JBool False)"
    and "get v ''domain'' = JStr (sanitize (get r ''domain''))"
    and "get v ''scraped_at'' = js_or (get r ''scraped_at'') (JStr (date_iso E))"
    and "get v ''last_updated'' = JStr (date_iso E)"
    and "get v ''url'' = JUndefined"
    and "get v ''practiceId'' = JUndefined"
    and "get v ''doctor'' = JUndefined"
    unfolding v get_def by (simp_all add: p [unfolded get_def] w [unfolded get_def])
qed



lemma validatePhone_string:
  assumes "validatePhone x = Inr phone"
  shows "\<exists>s. phone = JStr s"
  using assms by (cases x) (auto simp add: Let_def split: if_splits)

lemma validatePhone_idem:
  assumes "validatePhone x = Inr phone"
  shows "validatePhone phone = Inr phone"
  using assms by (cases x) (auto simp add: Let_def split: if_splits)

lemma validateEmail_idem: "validateEmail (validateEmail e) = validateEmail e"
  by (simp add: validateEmail_def)

lemma js_or_idem: "js_or (js_or a b) b = js_or a b"
  by (simp add: js_or_def)

lemma validatePhone_total: "string_or_absent x \<Longrightarrow> \<exists>phone. validatePhone x = Inr phone"
  by (cases x) (simp_all add: Let_def)

lemma validateUrl_total: "string_or_absent x \<Longrightarrow> \<exists>website. validateUrl E x = Inr website"
  by (cases x) simp_all

lemma validateNotionData_total:
  assumes "string_or_absent (get r ''phone'')" and "string_or_absent (get r ''url'')"
  shows "\<exists>v. validateNotionData E r = Inr v"
proof -
  from validatePhone_total [OF assms(1)] obtain phone
    where p: "validatePhone (get r ''phone'') = Inr phone" ..
  from validateUrl_total [OF assms(2)] obtain website
    where w: "validateUrl E (get r ''url'') = Inr website" ..
  show ?thesis by (simp add: validateNotionData_def p w)
qed

section \<open>Sanitizing twice\<close>

lemma js_trim_subset: "set (js_trim s) \<subseteq> set s"
proof -
  have "set (dropWhile is_space (rev (dropWhile is_space s))) \<subseteq> set (rev (dropWhile is_space s))"
    by (auto dest: set_dropWhileD)
  also have "\<dots> \<subseteq> set s"
    by (auto dest: set_dropWhileD)
  finally show ?thesis by (simp add: js_trim_def)
qed

lemma js_trim_length: "length (js_trim s) \<le> length s"
proof -
  have "length (dropWhile is_space (rev (dropWhile is_space s))) \<le> length (rev (dropWhile is_space s))"
    by (rule length_dropWhile_le)
  also have "\<dots> \<le> length s"
    by (simp add: length_dropWhile_le)
  finally show ?thesis by (simp add: js_trim_def)
qed

lemma dropWhile_last:
  assumes "dropWhile P xs \<noteq> []"
  shows "last (dropWhile P xs) = last xs"
  using assms by (induction xs) (auto split: if_splits)

lemma js_trim_idem: "js_trim (js_trim s) = js_trim s"
proof -
  let ?a = "dropWhile is_space s"
  let ?b = "dropWhile is_space (rev ?a)"
  have head: "dropWhile is_space (rev ?b) = rev ?b"
  proof (cases "?b = []")
    case True
    show ?thesis unfolding True by simp
  next
    case False
    have a: "?a \<noteq> []"
    proof
      assume e: "?a = []"
      have "?b = []" unfolding e by simp
      with False show False ..
    qed
    from False have "last ?b = last (rev ?a)" by (rule dropWhile_last)
    also have "\<dots> = hd ?a" using a by (simp add: last_rev)
    finally have "\<not> is_space (last ?b)" using a by (simp add: hd_dropWhile)
    with False have "\<not> is_space (hd (rev ?b))" by (simp add: hd_rev)
    with False show ?thesis by (cases "rev ?b") simp_all
  qed
  have "js_trim (js_trim s) = rev (dropWhile is_space (rev (dropWhile is_space (rev ?b))))"
    by (simp add: js_trim_def)
  also have "\<dots> = rev (dropWhile is_space ?b)"
    unfolding head by simp
  also have "\<dots> = rev ?b"
    by (simp add: dropWhile_idem)
  finally show ?thesis by (simp add: js_trim_def)
qed

lemma printable_not_control: "is_printable c \<Longrightarrow> code c \<notin> {10, 13, 9}"
  by (auto simp add: is_printable_def)

lemma sanitize_clean_string:
  assumes pr: "\<forall>c \<in> set t. is_printable c" and tr: "js_trim t = t" and len: "length t \<le> 2000"
  shows "sanitize (JStr t) = t"
proof (cases "t = []")
  case True
  then show ?thesis by (simp add: sanitize_def)
next
  case False
  have m: "map (\<lambda>c. if code c \<in> {10, 13, 9} then CHR '' '' else c) t = t"
    using pr by (intro map_idI) (auto dest: printable_not_control)
  have f: "filter is_printable t = t"
    using pr by (simp add: filter_id_conv)
  have "sanitize (JStr t)
        = take 2000 (js_trim (filter is_printable
            (map (\<lambda>c. if code c \<in> {10, 13, 9} then CHR '' '' else c) t)))"
    using False by (simp add: sanitize_def)
  also have "\<dots> = take 2000 t"
    unfolding m f tr ..
  also have "\<dots> = t"
    using len by simp
  finally show ?thesis .
qed

lemma trimmed_printable:
  "\<forall>c \<in> set (js_trim (filter is_printable u)). is_printable c"
  using js_trim_subset [of "filter is_printable u"] by auto

lemma trimmed_length: "length (js_trim (filter is_printable (map f u))) \<le> length u"
proof -
  have "length (js_trim (filter is_printable (map f u))) \<le> length (filter is_printable (map f u))"
    by (rule js_trim_length)
  also have "\<dots> \<le> length (map f u)"
    by (rule length_filter_le)
  finally show ?thesis by simp
qed

lemma sanitize_again:
  assumes "length (js_String x) \<le> 2000"
  shows "sanitize (JStr (sanitize x)) = sanitize x"
proof (cases "truthy x")
  case False
  then show ?thesis by (simp add: sanitize_def)
next
  case True
  have len: "length (js_trim (filter is_printable
               (map (\<lambda>c. if code c \<in> {10, 13, 9} then CHR '' '' else c) (js_String x)))) \<le> 2000"
    using trimmed_length [of "\<lambda>c. if code c \<in> {10, 13, 9} then CHR '' '' else c" "js_String x"] assms
    by (rule le_trans)
  have s: "sanitize x = js_trim (filter is_printable
               (map (\<lambda>c. if code c \<in> {10, 13, 9} then CHR '' '' else c) (js_String x)))"
    using True len by (simp add: sanitize_def)
  show ?thesis
    unfolding s
    by (rule sanitize_clean_string [OF trimmed_printable js_trim_idem len])
qed

lemma sanitize_default:
  "sanitize (JStr ''Healthcare Practice'') = ''Healthcare Practice''"
  "sanitize (JStr ''Healthcare Location'') = ''Healthcare Location''"
  "sanitize (JStr ''healthcare'') = ''healthcare''"
  by (simp_all add: sanitize_def string_eval)

lemma sanitize_or_again:
  assumes "length (js_String x) \<le> 2000" and "sanitize (JStr dflt) = dflt"
  shows "sanitize_or (sanitize_or x dflt) dflt = sanitize_or x dflt"
  using sanitize_again [OF assms(1)] assms(2) by (simp add: sanitize_or_def)

lemma clamp_score_again:
  "clamp_score (JNum (clamp_score x)) = (if clamp_score x = 0 then 50 else clamp_score x)"
  by (simp add: clamp_score_def Let_def)

lemma joined_field_again: "joined_field n dflt (joined_field m dflt' x) = JStr dflt"
  by (cases x) simp_all

section \<open>Validating a validated record\<close>

lemma offline_validate: "validateNotionData offline_env example_lead = Inr example_validated"
  by (simp add: validateNotionData_def offline_env_def example_lead_def example_validated_def
      get_def sanitize_or_def sanitize_def validateEmail_def clamp_score_def js_or_def
      is_host_char_def string_eval)

lemma offline_revalidate: "validateNotionData offline_env example_validated = Inr example_revalidated"
  by (simp add: validateNotionData_def offline_env_def example_validated_def
      example_revalidated_def get_def sanitize_or_def sanitize_def validateEmail_def
      clamp_score_def js_or_def is_host_char_def string_eval)

text \<open>
  C6. Claimed: \<^verbatim>\<open>validateNotionData\<close> is total and idempotent. Validating the validated
  example again gives another record: the website and the practice id are lost.
\<close>

theorem validateNotionData_idempotent_counterexample:
  "validateNotionData offline_env example_lead = Inr example_validated
   \<and> validateNotionData offline_env example_validated = Inr example_revalidated
   \<and> example_revalidated \<noteq> example_validated
   \<and> get example_validated ''website'' = JStr ''https://drsmith-dental.example.com''
   \<and> get example_revalidated ''website'' = JStr []"
  using offline_validate offline_revalidate
  by (simp add: example_validated_def example_revalidated_def get_def)

text \<open>
  C6, amended. \<^verbatim>\<open>validateNotionData\<close> never fails on a record whose phone and url are
  strings or absent, and never fails on its own output. It is not idempotent. A second
  application, at the same clock reading, keeps phone, email, status, exa_enhanced, scraped_at
  and last_updated; it keeps company, location, practice_type and domain when their original
  text has at most 2000 characters; it keeps lead_score unless that is 0, which becomes 50;
  it empties website and practice_id; and it resets services, treatments and specializations
  to their default texts.
\<close>

theorem validateNotionData_twice:
  "(string_or_absent (get r ''phone'') \<and> string_or_absent (get r ''url'')
      \<longrightarrow> (\<exists>v. validateNotionData E r = Inr v))
   \<and> (\<forall>v. validateNotionData E r = Inr v \<longrightarrow>
        (\<exists>w. validateNotionData E v = Inr w
           \<and> get w ''phone'' = get v ''phone'' \<and> get w ''email'' = get v ''email''
           \<and> get w ''status'' = get v ''status''
           \<and> get w ''exa_enhanced'' = get v ''exa_enhanced''
           \<and> get w ''scraped_at'' = get v ''scraped_at''
           \<and> get w ''last_updated'' = get v ''last_updated''
           \<and> (length (js_String (get r ''company'')) \<le> 2000
                \<longrightarrow> get w ''company'' = get v ''company'')
           \<and> (length (js_String (get r ''location'')) \<le> 2000
                \<longrightarrow> get w ''location'' = get v ''location'')
           \<and> (length (js_String (get r ''practice_type'')) \<le> 2000
                \<longrightarrow> get w ''practice_type'' = get v ''practice_type'')
           \<and> (length (js_String (get r ''domain'')) \<le> 2000
                \<longrightarrow> get w ''domain'' = get v ''domain'')
           \<and> get w ''lead_score''
               = (if get v ''lead_score'' = JNum 0 then JNum 50 else get v ''lead_score'')
           \<and> get w ''website'' = JStr [] \<and> get w ''practice_id'' = JStr []
           \<and> get w ''services'' = JStr ''Healthcare Services''
           \<and> get w ''treatments'' = JStr ''Consultation''
           \<and> get w ''specializations'' = JStr ''General Healthcare''))"
proof (intro conjI allI impI)
  assume "string_or_absent (get r ''phone'') \<and> string_or_absent (get r ''url'')"
  then show "\<exists>v. validateNotionData E r = Inr v"
    using validateNotionData_total by blast
next
  fix v
  assume v: "validateNotionData E r = Inr v"
  note fv = validated_fields [OF v]
  from validatePhone_string [OF fv(2)] have "string_or_absent (get v ''phone'')" by auto
  moreover have "string_or_absent (get v ''url'')" by (simp add: fv)
  ultimately obtain w where w: "validateNotionData E v = Inr w"
    using validateNotionData_total by blast
  note fw = validated_fields [OF w]
  have phone: "get w ''phone'' = get v ''phone''"
    using fw(2) validatePhone_idem [OF fv(2)] by simp
  have email: "get w ''email'' = get v ''email''"
    by (simp add: fw(3) fv(3) validateEmail_idem)
  have status: "get w ''status'' = get v ''status''"
    by (simp add: fw(7) fv(7))
  have exa: "get w ''exa_enhanced'' = get v ''exa_enhanced''"
    by (simp add: fw(13) fv(13) js_or_idem)
  have scraped: "get w ''scraped_at'' = get v ''scraped_at''"
    by (simp add: fw(15) fv(15) js_or_idem)
  have updated: "get w ''last_updated'' = get v ''last_updated''"
    by (simp add: fw(16) fv(16))
  have company: "get w ''company'' = get v ''company''"
    if "length (js_String (get r ''company'')) \<le> 2000"
    by (simp add: fw(1) fv(1) sanitize_or_again [OF that] sanitize_default)
  have location: "get w ''location'' = get v ''location''"
    if "length (js_String (get r ''location'')) \<le> 2000"
    by (simp add: fw(4) fv(4) sanitize_or_again [OF that] sanitize_default)
  have ptype: "get w ''practice_type'' = get v ''practice_type''"
    if "length (js_String (get r ''practice_type'')) \<le> 2000"
    by (simp add: fw(8) fv(8) sanitize_or_again [OF that] sanitize_default)
  have domain: "get w ''domain'' = get v ''domain''"
    if "length (js_String (get r ''domain'')) \<le> 2000"
    by (simp add: fw(14) fv(14) sanitize_again [OF that])
  have score: "get w ''lead_score''
               = (if get v ''lead_score'' = JNum 0 then JNum 50 else get v ''lead_score'')"
    by (simp add: fw(12) fv(12) clamp_score_again)
  have website: "get w ''website'' = JStr []"
    using fw(5) by (simp add: fv(17))
  have pid: "get w ''practice_id'' = JStr []"
    by (simp add: fw(6) fv(18) sanitize_def)
  have lists: "get w ''services'' = JStr ''Healthcare Services''"
    "get w ''treatments'' = JStr ''Consultation''"
    "get w ''specializations'' = JStr ''General Healthcare''"
    by (simp_all add: fw(9,10,11) fv(9,10,11) joined_field_again)
  from w phone email status exa scraped updated company location ptype domain score website
    pid lists
  show "\<exists>w. validateNotionData E v = Inr w
           \<and> get w ''phone'' = get v ''phone'' \<and> get w ''email'' = get v ''email''
           \<and> get w ''status'' = get v ''status''
           \<and> get w ''exa_enhanced'' = get v ''exa_enhanced''
           \<and> get w ''scraped_at'' = get v ''scraped_at''
           \<and> get w ''last_updated'' = get v ''last_updated''
           \<and> (length (js_String (get r ''company'')) \<le> 2000
                \<longrightarrow> get w ''company'' = get v ''company'')
           \<and> (length (js_String (get r ''location'')) \<le> 2000
                \<longrightarrow> get w ''location'' = get v ''location'')
           \<and> (length (js_String (get r ''practice_type'')) \<le> 2000
                \<longrightarrow> get w ''practice_type'' = get v ''practice_type'')
           \<and> (length (js_String (get r ''domain'')) \<le> 2000
                \<longrightarrow> get w ''domain'' = get v ''domain'')
           \<and> get w ''lead_score''
               = (if get v ''lead_score'' = JNum 0 then JNum 50 else get v ''lead_score'')
           \<and> get w ''website'' = JStr [] \<and> get w ''practice_id'' = JStr []
           \<and> get w ''services'' = JStr ''Healthcare Services''
           \<and> get w ''treatments'' = JStr ''Consultation''
           \<and> get w ''specializations'' = JStr ''General Healthcare''"
    by blast
qed

theorem validateNotionData_twice_witness:
  "string_or_absent (get example_lead ''phone'') \<and> string_or_absent (get example_lead ''url'')
   \<and> validateNotionData offline_env example_lead = Inr example_validated
   \<and> length (js_String (get example_lead ''company'')) \<le> 2000
   \<and> (\<exists>w. validateNotionData offline_env example_validated = Inr w
          \<and> get w ''company'' = JStr ''Drsmith Dental Example Healthcare''
          \<and> get w ''lead_score'' = JNum 68
          \<and> get w ''website'' = JStr [] \<and> get w ''practice_id'' = JStr []
          \<and> get w ''services'' = JStr ''Healthcare Services'')"
proof -
  have t: "string_or_absent (get example_lead ''phone'')"
    "string_or_absent (get example_lead ''url'')"
    and l: "length (js_String (get example_lead ''company'')) \<le> 2000"
    by (simp_all add: example_lead_def get_def)
  have c: "get example_validated ''company'' = JStr ''Drsmith Dental Example Healthcare''"
    and s: "get example_validated ''lead_score'' = JNum 68"
    by (simp_all add: example_validated_def get_def)
  from validateNotionData_twice [of example_lead offline_env] offline_validate l
  obtain w where "validateNotionData offline_env example_validated = Inr w"
    and "get w ''company'' = get example_validated ''company''"
    and "get w ''lead_score''
         = (if get example_validated ''lead_score'' = JNum 0 then JNum 50
            else get example_validated ''lead_score'')"
    and "get w ''website'' = JStr []" and "get w ''practice_id'' = JStr []"
    and "get w ''services'' = JStr ''Healthcare Services''"
    by blast
  with c s have "\<exists>w. validateNotionData offline_env example_validated = Inr w
          \<and> get w ''company'' = JStr ''Drsmith Dental Example Healthcare''
          \<and> get w ''lead_score'' = JNum 68
          \<and> get w ''website'' = JStr [] \<and> get w ''practice_id'' = JStr []
          \<and> get w ''services'' = JStr ''Healthcare Services''"
    by auto
  with t l offline_validate show ?thesis by blast
qed

section \<open>Storage never fails outward\<close>

lemma sanitize_or_truthy: "dflt \<noteq> [] \<Longrightarrow> truthy (sanitize_or x dflt)"
  by (simp add: sanitize_or_def)

lemma js_or_validateEmail: "js_or (validateEmail e) (JStr []) = validateEmail e"
  by (simp add: js_or_def validateEmail_def)

lemma js_or_string: "js_or (JStr s) (JStr []) = JStr s"
  by (simp add: js_or_def)

lemma fallback_of_validated:
  assumes "validateNotionData E r = Inr v"
  shows "\<exists>rec. nr_record (createFallbackNotionRecord E v) = Some rec
           \<and> get rec ''company'' = get v ''company'' \<and> get rec ''phone'' = get v ''phone''
           \<and> get rec ''email'' = get v ''email'' \<and> get rec ''location'' = get v ''location''"
proof -
  note fv = validated_fields [OF assms]
  from validatePhone_string [OF fv(2)] obtain s where p: "get v ''phone'' = JStr s" by blast
  have c: "js_or (get v ''company'') (JStr ''Healthcare Practice'') = get v ''company''"
    and l: "js_or (get v ''location'') (JStr ''Healthcare Location'') = get v ''location''"
    using sanitize_or_truthy [of "''Healthcare Practice''" "get r ''company''"]
      sanitize_or_truthy [of "''Healthcare Location''" "get r ''location''"]
    by (simp_all add: fv(1) fv(4) js_or_def)
  have e: "js_or (get v ''email'') (JStr []) = get v ''email''"
    by (simp add: fv(3) js_or_validateEmail)
  have ph: "js_or (get v ''phone'') (JStr []) = get v ''phone''"
    by (simp add: p js_or_string)
  show ?thesis
    unfolding createFallbackNotionRecord_def Let_def notion_result.simps
    by (simp add: get_def c [unfolded get_def] l [unfolded get_def] e [unfolded get_def]
        ph [unfolded get_def])
qed

lemma fallback_shape:
  "nr_success (createFallbackNotionRecord E r) \<and> nr_is_fallback (createFallbackNotionRecord E r)
   \<and> nr_leadId (createFallbackNotionRecord E r)
       = Some (''fallback_'' @ show_nat (date_now E) @ ''_'' @ random36 E)"
  by (simp add: createFallbackNotionRecord_def Let_def)

lemma offline_store_fails: "\<not> notion_call_ok offline_env"
  by (simp add: offline_env_def)

lemma offline_fallback:
  "createFallbackNotionRecord offline_env example_validated
     = \<lparr>nr_success = True, nr_leadId = Some ''fallback_1762146000123_k3j9x'',
        nr_record = Some example_fallback_record, nr_is_fallback = True,
        nr_is_emergency_fallback = False, nr_error = None\<rparr>"
  by (simp add: createFallbackNotionRecord_def offline_env_def example_validated_def
      example_fallback_record_def get_def js_or_def string_eval)

lemma offline_store:
  "storeLeadInNotion offline_env example_lead
     = Inr \<lparr>nr_success = True, nr_leadId = Some ''fallback_1762146000123_k3j9x'',
            nr_record = Some example_fallback_record, nr_is_fallback = True,
            nr_is_emergency_fallback = False, nr_error = None\<rparr>"
  by (simp add: storeLeadInNotion_def offline_validate attemptNotionStorage_def
      offline_store_fails offline_fallback)

text \<open>
  C3. Claimed: \<^verbatim>\<open>storeLeadInNotion\<close> never throws, returns a non-empty record id, and on a
  failed store call returns \<^verbatim>\<open>is_fallback\<close> true with the original payload preserved.
  In the run below the store call fails and the fallback record has lost the treatments, the
  lead score, the website and the practice id of the payload.
\<close>

theorem storeLeadInNotion_payload_counterexample:
  "\<not> notion_call_ok offline_env
   \<and> validateNotionData offline_env example_lead = Inr example_validated
   \<and> storeLeadInNotion offline_env example_lead
       = Inr \<lparr>nr_success = True, nr_leadId = Some ''fallback_1762146000123_k3j9x'',
              nr_record = Some example_fallback_record, nr_is_fallback = True,
              nr_is_emergency_fallback = False, nr_error = None\<rparr>
   \<and> \<not> payload_preserved example_validated example_fallback_record
   \<and> get example_validated ''treatments'' = JStr ''Consultation''
   \<and> get example_fallback_record ''treatments'' = JUndefined
   \<and> get example_validated ''lead_score'' = JNum 68
   \<and> get example_fallback_record ''lead_score'' = JUndefined
   \<and> get example_validated ''website'' = JStr ''https://drsmith-dental.example.com''
   \<and> get example_fallback_record ''website'' = JStr []
   \<and> get example_validated ''practice_id'' = JStr ''drsmith-dental-example-healthc-000123''
   \<and> get example_fallback_record ''practice_id'' = JStr ''practice_1762146000123''"
proof -
  have p: "\<not> payload_preserved example_validated example_fallback_record"
    by (simp add: payload_preserved_def example_validated_def example_fallback_record_def get_def)
  have g: "get example_validated ''treatments'' = JStr ''Consultation''"
    "get example_fallback_record ''treatments'' = JUndefined"
    "get example_validated ''lead_score'' = JNum 68"
    "get example_fallback_record ''lead_score'' = JUndefined"
    "get example_validated ''website'' = JStr ''https://drsmith-dental.example.com''"
    "get example_fallback_record ''website'' = JStr []"
    "get example_validated ''practice_id'' = JStr ''drsmith-dental-example-healthc-000123''"
    "get example_fallback_record ''practice_id'' = JStr ''practice_1762146000123''"
    by (simp_all add: example_validated_def example_fallback_record_def get_def)
  from offline_store_fails offline_validate offline_store p g show ?thesis by blast
qed

text \<open>
  C3, amended. For every input record \<^verbatim>\<open>storeLeadInNotion\<close> never throws and returns a
  successful result with a non-empty record id; whenever the store call fails, the result has
  \<^verbatim>\<open>is_fallback\<close> true and its record carries the company, phone, email and location of
  the validated record.
\<close>

theorem storeLeadInNotion_degrades:
  "\<exists>r leadId. storeLeadInNotion E practiceData = Inr r \<and> nr_success r
      \<and> nr_leadId r = Some leadId \<and> leadId \<noteq> []
      \<and> (\<not> notion_call_ok E \<longrightarrow>
            nr_is_fallback r
          \<and> (\<forall>v. validateNotionData E practiceData = Inr v \<longrightarrow>
                (\<exists>rec. nr_record r = Some rec
                   \<and> get rec ''company'' = get v ''company'' \<and> get rec ''phone'' = get v ''phone''
                   \<and> get rec ''email'' = get v ''email''
                   \<and> get rec ''location'' = get v ''location'')))"
proof (cases "validateNotionData E practiceData")
  case (Inl err)
  then have "storeLeadInNotion E practiceData = Inr (createFallbackNotionRecord E practiceData)"
    by (simp add: storeLeadInNotion_def)
  with Inl fallback_shape [of E practiceData] show ?thesis by auto
next
  case (Inr v)
  show ?thesis
  proof (cases "notion_call_ok E")
    case True
    with Inr have "storeLeadInNotion E practiceData = Inr (attemptNotionStorage E v)"
      by (simp add: storeLeadInNotion_def attemptNotionStorage_def)
    with True show ?thesis by (simp add: attemptNotionStorage_def)
  next
    case False
    with Inr have "storeLeadInNotion E practiceData = Inr (createFallbackNotionRecord E v)"
      by (simp add: storeLeadInNotion_def attemptNotionStorage_def)
    with Inr fallback_shape [of E v] fallback_of_validated [OF Inr] show ?thesis by auto
  qed
qed

theorem storeLeadInNotion_degrades_witness:
  "\<not> notion_call_ok offline_env
   \<and> validateNotionData offline_env example_lead = Inr example_validated
   \<and> (\<exists>r leadId rec. storeLeadInNotion offline_env example_lead = Inr r
         \<and> nr_leadId r = Some leadId \<and> leadId \<noteq> [] \<and> nr_is_fallback r
         \<and> nr_record r = Some rec
         \<and> get rec ''company'' = JStr ''Drsmith Dental Example Healthcare''
         \<and> get rec ''location'' = JStr ''Practice Location'')"
proof -
  have n: "\<not> notion_call_ok offline_env" by (simp add: offline_env_def)
  have c: "get example_validated ''company'' = JStr ''Drsmith Dental Example Healthcare''"
    and l: "get example_validated ''location'' = JStr ''Practice Location''"
    by (simp_all add: example_validated_def get_def)
  from storeLeadInNotion_degrades [of offline_env example_lead] n offline_validate
  obtain r leadId rec where "storeLeadInNotion offline_env example_lead = Inr r"
    and "nr_leadId r = Some leadId" and "leadId \<noteq> []" and "nr_is_fallback r"
    and "nr_record r = Some rec"
    and "get rec ''company'' = get example_validated ''company''"
    and "get rec ''location'' = get example_validated ''location''"
    by blast
  with c l have "\<exists>r leadId rec. storeLeadInNotion offline_env example_lead = Inr r
         \<and> nr_leadId r = Some leadId \<and> leadId \<noteq> [] \<and> nr_is_fallback r
         \<and> nr_record r = Some rec
         \<and> get rec ''company'' = JStr ''Drsmith Dental Example Healthcare''
         \<and> get rec ''location'' = JStr ''Practice Location''"
    by auto
  with n offline_validate show ?thesis by blast
qed

section \<open>The example workflow\<close>

text \<open>
  The example run is complete although the Notion call failed: the fallback record of the
  storage step counts as a successful phase, and the orchestrator used no fallback of its own.
\<close>

lemma offline_run:
  "\<exists>r. processHealthcarePractice offline_env example_url = Inr r
       \<and> wf_workflow_status r = ''complete'' \<and> wf_notion_is_fallback r
       \<and> wf_method r = ''emergency-mock''"
proof -
  have c: "truthy (get example_lead ''company'')"
    by (simp add: example_lead_def get_def)
  have p0: "phase_scraping offline_env example_url =
      Inr (example_lead, \<lparr>sp_success = True, sp_error = None, sp_data = Some example_lead,
                sp_fallback_used = False, sp_emergency_fallback = False\<rparr>)"
    by (simp add: phase_scraping_def offline_scrape c)
  have d: "createPersonalizedRepository offline_env example_lead
           = Some (createEmergencyMockDeployment offline_env example_lead)"
    by (rule cascade_after_three_failures
        [OF offline_full_fails offline_existing_fails offline_direct_fails])
  show ?thesis
    by (simp add: processHealthcarePractice_def p0 phase_notion_def offline_store
        phase_deployment_def d emergency_mock_succeeds workflow_completion_def
        workflow_status_of_def Let_def)
qed

lemma phase_notion_success:
  assumes "phase_notion E pd = (nr, ns)"
  shows "storeLeadInNotion E pd = Inr nr \<and> sp_success ns"
  using assms store_returns [of E pd] by (auto simp add: phase_notion_def)

lemma phase_deployment_success:
  assumes "phase_deployment E pd = (dr, ds)"
  shows "sp_success ds = dp_success dr"
  using assms by (auto simp add: phase_deployment_def Let_def split: option.splits)

text \<open>
  C1. Claimed: the status is \<^verbatim>\<open>complete\<close> if and only if every phase outcome has
  \<^verbatim>\<open>success\<close> true with no fallback used. The example run is \<^verbatim>\<open>complete\<close>, yet the
  Notion call failed and the stored record is the fallback record, and all three external
  strategies failed and the deployment is the emergency mock.
\<close>

theorem workflow_status_counterexample:
  "map_sum id wf_workflow_status (processHealthcarePractice offline_env example_url)
     = Inr ''complete''
   \<and> map_sum id wf_notion_is_fallback (processHealthcarePractice offline_env example_url)
     = Inr True
   \<and> map_sum id wf_method (processHealthcarePractice offline_env example_url)
     = Inr ''emergency-mock''
   \<and> \<not> notion_call_ok offline_env
   \<and> isl (attemptFullGithubRailwayDeployment offline_env example_lead)
   \<and> isl (attemptExistingRepoDeployment offline_env example_lead)
   \<and> isl (attemptDirectRailwayMCP offline_env example_lead)"
  using offline_run offline_store_fails offline_full_fails [of example_lead]
    offline_existing_fails [of example_lead] offline_direct_fails [of example_lead]
  by auto

text \<open>
  C1, amended. The status is computed from the \<^verbatim>\<open>success\<close> flags of the three phase
  outcomes: it is \<^verbatim>\<open>complete\<close> if and only if all three are true, \<^verbatim>\<open>partial-success\<close> if
  and only if at least one but not all are true, and \<^verbatim>\<open>failed\<close> if and only if none is
  true. Every run that returns has its result computed in this way from the outcomes of its
  phases, where the storage phase has \<^verbatim>\<open>success\<close> true whenever the storage step returned
  (a fallback record too) and the deployment phase has the \<^verbatim>\<open>success\<close> of the cascade's
  result (the emergency mock too): \<^verbatim>\<open>complete\<close> does not exclude that a fallback was used.
\<close>

theorem workflow_status_rule:
  "(wf_workflow_status (workflow_completion pd sc nr ns dr ds) = ''complete''
      \<longleftrightarrow> sp_success sc \<and> sp_success ns \<and> sp_success ds)
   \<and> (wf_workflow_status (workflow_completion pd sc nr ns dr ds) = ''partial-success''
      \<longleftrightarrow> (sp_success sc \<or> sp_success ns \<or> sp_success ds)
          \<and> \<not> (sp_success sc \<and> sp_success ns \<and> sp_success ds))
   \<and> (wf_workflow_status (workflow_completion pd sc nr ns dr ds) = ''failed''
      \<longleftrightarrow> \<not> sp_success sc \<and> \<not> sp_success ns \<and> \<not> sp_success ds)
   \<and> (processHealthcarePractice E url = Inr r \<longrightarrow>
        (\<exists>practiceData scraping notionResult notion deploymentResult deployment.
            phase_scraping E url = Inr (practiceData, scraping)
          \<and> phase_notion E practiceData = (notionResult, notion)
          \<and> phase_deployment E practiceData = (deploymentResult, deployment)
          \<and> r = workflow_completion practiceData scraping notionResult notion
                    deploymentResult deployment
          \<and> storeLeadInNotion E practiceData = Inr notionResult \<and> sp_success notion
          \<and> sp_success deployment = dp_success deploymentResult))"
proof -
  have rule: "(wf_workflow_status (workflow_completion pd sc nr ns dr ds) = ''complete''
      \<longleftrightarrow> sp_success sc \<and> sp_success ns \<and> sp_success ds)
   \<and> (wf_workflow_status (workflow_completion pd sc nr ns dr ds) = ''partial-success''
      \<longleftrightarrow> (sp_success sc \<or> sp_success ns \<or> sp_success ds)
          \<and> \<not> (sp_success sc \<and> sp_success ns \<and> sp_success ds))
   \<and> (wf_workflow_status (workflow_completion pd sc nr ns dr ds) = ''failed''
      \<longleftrightarrow> \<not> sp_success sc \<and> \<not> sp_success ns \<and> \<not> sp_success ds)"
    unfolding completion_status by auto
  have run: "\<exists>practiceData scraping notionResult notion deploymentResult deployment.
            phase_scraping E url = Inr (practiceData, scraping)
          \<and> phase_notion E practiceData = (notionResult, notion)
          \<and> phase_deployment E practiceData = (deploymentResult, deployment)
          \<and> r = workflow_completion practiceData scraping notionResult notion
                    deploymentResult deployment
          \<and> storeLeadInNotion E practiceData = Inr notionResult \<and> sp_success notion
          \<and> sp_success deployment = dp_success deploymentResult"
    if "processHealthcarePractice E url = Inr r"
  proof -
    from process_result [OF that] obtain pd' sc' nr' ns' dr' ds' where
      p0: "phase_scraping E url = Inr (pd', sc')" and p1: "phase_notion E pd' = (nr', ns')"
      and p2: "phase_deployment E pd' = (dr', ds')"
      and r: "r = workflow_completion pd' sc' nr' ns' dr' ds'"
      by blast
    from p0 p1 p2 r phase_notion_success [OF p1] phase_deployment_success [OF p2]
    show ?thesis by blast
  qed
  from rule run show ?thesis by blast
qed

text \<open>
  The rule at three inputs: the example run, which is complete; outcomes where only scraping
  failed; and outcomes where everything failed.
\<close>

theorem workflow_status_rule_witness:
  "(\<exists>r practiceData scraping notionResult notion deploymentResult deployment.
       processHealthcarePractice offline_env example_url = Inr r
     \<and> r = workflow_completion practiceData scraping notionResult notion
               deploymentResult deployment
     \<and> storeLeadInNotion offline_env practiceData = Inr notionResult
     \<and> sp_success scraping \<and> sp_success notion \<and> sp_success deployment
     \<and> wf_workflow_status r = ''complete'')
   \<and> wf_workflow_status
        (workflow_completion example_lead
           \<lparr>sp_success = False, sp_error = Some ''Invalid URL'', sp_data = Some example_lead,
            sp_fallback_used = True, sp_emergency_fallback = False\<rparr>
           (createFallbackNotionRecord offline_env example_lead)
           \<lparr>sp_success = True, sp_error = None,
            sp_data = Some (createFallbackNotionRecord offline_env example_lead),
            sp_fallback_used = False, sp_emergency_fallback = False\<rparr>
           (createEmergencyMockDeployment offline_env example_lead)
           \<lparr>sp_success = True, sp_error = None,
            sp_data = Some (createEmergencyMockDeployment offline_env example_lead),
            sp_fallback_used = False, sp_emergency_fallback = False\<rparr>)
       = ''partial-success''
   \<and> wf_workflow_status
        (workflow_completion example_lead
           \<lparr>sp_success = False, sp_error = Some ''Invalid URL'', sp_data = Some example_lead,
            sp_fallback_used = True, sp_emergency_fallback = False\<rparr>
           (createFallbackNotionRecord offline_env example_lead)
           \<lparr>sp_success = False, sp_error = Some ''storage'',
            sp_data = Some (createFallbackNotionRecord offline_env example_lead),
            sp_fallback_used = False, sp_emergency_fallback = True\<rparr>
           (createEmergencyMockDeployment offline_env example_lead)
           \<lparr>sp_success = False, sp_error = Some ''deployment'',
            sp_data = Some (createEmergencyMockDeployment offline_env example_lead),
            sp_fallback_used = True, sp_emergency_fallback = False\<rparr>)
       = ''failed''"
proof -
  let ?sc = "\<lparr>sp_success = False, sp_error = Some ''Invalid URL'', sp_data = Some example_lead,
            sp_fallback_used = True, sp_emergency_fallback = False\<rparr>"
  let ?nr = "createFallbackNotionRecord offline_env example_lead"
  let ?dr = "createEmergencyMockDeployment offline_env example_lead"
  let ?ns = "\<lparr>sp_success = True, sp_error = None, sp_data = Some ?nr,
            sp_fallback_used = False, sp_emergency_fallback = False\<rparr>"
  let ?ds = "\<lparr>sp_success = True, sp_error = None, sp_data = Some ?dr,
            sp_fallback_used = False, sp_emergency_fallback = False\<rparr>"
  let ?nf = "\<lparr>sp_success = False, sp_error = Some ''storage'', sp_data = Some ?nr,
            sp_fallback_used = False, sp_emergency_fallback = True\<rparr>"
  let ?df = "\<lparr>sp_success = False, sp_error = Some ''deployment'', sp_data = Some ?dr,
            sp_fallback_used = True, sp_emergency_fallback = False\<rparr>"
  from offline_run obtain r
    where r: "processHealthcarePractice offline_env example_url = Inr r"
      and c: "wf_workflow_status r = ''complete''"
    by blast
  from workflow_status_rule [of example_lead ?sc ?nr ?ns ?dr ?ds offline_env example_url r] r
  obtain practiceData scraping notionResult notion deploymentResult deployment
    where w: "r = workflow_completion practiceData scraping notionResult notion
                    deploymentResult deployment"
      and n: "storeLeadInNotion offline_env practiceData = Inr notionResult"
    by blast
  from c workflow_status_rule
    [of practiceData scraping notionResult notion deploymentResult deployment]
  have s: "sp_success scraping \<and> sp_success notion \<and> sp_success deployment"
    unfolding w by blast
  have first: "\<exists>r practiceData scraping notionResult notion deploymentResult deployment.
       processHealthcarePractice offline_env example_url = Inr r
     \<and> r = workflow_completion practiceData scraping notionResult notion
               deploymentResult deployment
     \<and> storeLeadInNotion offline_env practiceData = Inr notionResult
     \<and> sp_success scraping \<and> sp_success notion \<and> sp_success deployment
     \<and> wf_workflow_status r = ''complete''"
    using r w n s c by blast
  have partial: "wf_workflow_status (workflow_completion example_lead ?sc ?nr ?ns ?dr ?ds)
                 = ''partial-success''"
    using workflow_status_rule [of example_lead ?sc ?nr ?ns ?dr ?ds] by simp
  have failed: "wf_workflow_status (workflow_completion example_lead ?sc ?nr ?nf ?dr ?df)
                 = ''failed''"
    using workflow_status_rule [of example_lead ?sc ?nr ?nf ?dr ?df] by simp
  from first partial failed show ?thesis by blast
qed

end
